(* ===== verification/Prelude.thy ===== *)
theory Prelude
  imports Complex_Main "HOL-Library.Multiset" "HOL-Library.Product_Lexorder"
begin

text \<open>
  Shared vocabulary of the FINTRACK development: the errors a request handler can
  raise, the Python builtins that \<open>src/app.py\<close> calls on strings, lists and dicts
  (\<open>str.lower\<close>, \<open>str.strip\<close>, \<open>sum\<close>, the slice \<open>xs[-n:]\<close>, \<open>dict.get\<close>), and
  generic lemmas about them that the component theories use through the
  \<open>py_simps\<close> collection.  Strings are \<open>char list\<close>s of ASCII characters; the
  builtins are modelled on that alphabet.  Amounts (the \<open>db.Float\<close> column) are
  real numbers: the model computes in exact arithmetic, not in IEEE doubles.
\<close>

named_theorems py_defs "definitions of the modelled Python builtins"
named_theorems py_simps "rewrite rules for the modelled Python builtins"

type_synonym amount = real

text \<open>
  The exceptions the handlers of \<open>src/app.py\<close> can raise and that are not caught:
  \<open>ValueError\<close> (\<open>datetime.strptime\<close>, \<open>float\<close>), \<open>AttributeError\<close> (an
  attribute read on \<open>None\<close>), \<open>NotFound\<close> (\<open>get_or_404\<close>) and \<open>BadRequest\<close>
  (a missing key of \<open>request.form\<close>).
\<close>

datatype py_error = ValueError | AttributeError | NotFound | BadRequest

subsection \<open>Strings\<close>

text \<open>\<open>str.lower\<close> on ASCII: upper-case letters become lower-case, every other
  character is kept.\<close>

definition lower_char :: "char \<Rightarrow> char" where
  "lower_char c =
     (case map_of (zip ''ABCDEFGHIJKLMNOPQRSTUVWXYZ'' ''abcdefghijklmnopqrstuvwxyz'') c of
        Some c' \<Rightarrow> c'
      | None \<Rightarrow> c)"

definition py_lower :: "string \<Rightarrow> string" where
  "py_lower s = map lower_char s"

text \<open>\<open>str.strip()\<close>: the ASCII characters for which \<open>str.isspace\<close> holds are
  removed at both ends.\<close>

definition is_py_space :: "char \<Rightarrow> bool" where
  "is_py_space c = ((of_char c :: nat) \<in> {9, 10, 11, 12, 13, 28, 29, 30, 31, 32})"

definition py_strip :: "string \<Rightarrow> string" where
  "py_strip s = rev (dropWhile is_py_space (rev (dropWhile is_py_space s)))"

subsection \<open>Lists and dicts\<close>

text \<open>\<open>sum(xs)\<close> adds from the left, starting at \<open>0\<close>.\<close>

definition py_sum :: "amount list \<Rightarrow> amount" where
  "py_sum xs = foldl (+) 0 xs"

text \<open>\<open>xs[-n:]\<close>: the last \<open>n\<close> elements, all of them when there are fewer; for
  \<open>n = 0\<close> Python reads \<open>xs[-0:]\<close> as \<open>xs[0:]\<close>, the whole list.\<close>

definition py_tail_slice :: "nat \<Rightarrow> 'a list \<Rightarrow> 'a list" where
  "py_tail_slice n xs = (if n = 0 then xs else drop (length xs - n) xs)"

text \<open>\<open>d.get(k, default)\<close>.\<close>

definition py_dict_get :: "('k \<rightharpoonup> 'v) \<Rightarrow> 'k \<Rightarrow> 'v \<Rightarrow> 'v" where
  "py_dict_get m k d = (case m k of None \<Rightarrow> d | Some v \<Rightarrow> v)"

declare lower_char_def [py_defs] py_lower_def [py_defs] is_py_space_def [py_defs]
  py_strip_def [py_defs] py_sum_def [py_defs] py_tail_slice_def [py_defs]
  py_dict_get_def [py_defs]

subsection \<open>Lemmas on the builtins\<close>

lemma foldl_plus_eq: "foldl (+) a xs = a + sum_list (xs :: amount list)"
  by (induction xs arbitrary: a) (simp_all add: algebra_simps)

lemma py_sum_eq [simp, py_simps]: "py_sum xs = sum_list xs"
  by (simp add: py_sum_def foldl_plus_eq)

lemma py_sum_nonneg [py_simps]:
  "(\<And>x. x \<in> set xs \<Longrightarrow> 0 \<le> x) \<Longrightarrow> 0 \<le> py_sum xs"
  by (simp add: sum_list_nonneg)

lemma py_dict_get_empty [simp, py_simps]: "py_dict_get Map.empty k d = d"
  by (simp add: py_dict_get_def)

lemma py_dict_get_upd [simp, py_simps]:
  "py_dict_get (m(k \<mapsto> v)) j d = (if j = k then v else py_dict_get m j d)"
  by (simp add: py_dict_get_def)

lemma length_py_tail_slice [simp, py_simps]:
  "0 < n \<Longrightarrow> length (py_tail_slice n xs) = min n (length xs)"
  by (simp add: py_tail_slice_def)

lemma py_tail_slice_short [py_simps]:
  "length xs \<le> n \<Longrightarrow> py_tail_slice n xs = xs"
  by (simp add: py_tail_slice_def)

lemma py_tail_slice_suffix [py_simps]:
  "\<exists>ys. ys @ py_tail_slice n xs = xs"
  by (metis append_take_drop_id py_tail_slice_def self_append_conv2)

lemma py_tail_slice_append_last [py_simps]:
  "0 < n \<Longrightarrow> py_tail_slice n (xs @ [x]) = py_tail_slice (n - 1) xs @ [x] \<or> n = 1"
  by (cases n) (auto simp: py_tail_slice_def)

lemma lower_char_idem: "lower_char (lower_char c) = lower_char c"
proof -
  let ?U = "''ABCDEFGHIJKLMNOPQRSTUVWXYZ''" and ?L = "''abcdefghijklmnopqrstuvwxyz''"
  have disj: "set ?L \<inter> set ?U = {}" by simp
  show ?thesis
  proof (cases "map_of (zip ?U ?L) c")
    case None
    then show ?thesis by (simp add: lower_char_def)
  next
    case (Some c')
    then have "c' \<in> set ?L" by (blast dest: map_of_SomeD set_zip_rightD)
    with disj have "c' \<notin> set ?U" by blast
    then have "map_of (zip ?U ?L) c' = None" by (simp add: map_of_eq_None_iff)
    with Some show ?thesis by (simp add: lower_char_def)
  qed
qed

lemma py_lower_idem [simp, py_simps]: "py_lower (py_lower s) = py_lower s"
  by (simp add: py_lower_def comp_def lower_char_idem)

lemma length_py_lower [simp, py_simps]: "length (py_lower s) = length s"
  by (simp add: py_lower_def)

lemma sum_list_map_mset_eq [py_simps]:
  "mset xs = mset ys \<Longrightarrow> sum_list (map f xs) = (sum_list (map f ys) :: 'a::comm_monoid_add)"
  by (metis mset_map sum_mset_sum_list)

lemma sum_list_filter_disj [py_simps]:
  "(\<And>x. \<not> (P x \<and> Q x)) \<Longrightarrow>
     sum_list (map f (filter P xs)) + sum_list (map f (filter Q xs))
       = (sum_list (map f (filter (\<lambda>x. P x \<or> Q x) xs)) :: 'a::comm_monoid_add)"
  by (induction xs) (auto simp: algebra_simps)

lemma sorted_map_last_max [py_simps]:
  "sorted (map f xs) \<Longrightarrow> x \<in> set xs \<Longrightarrow> f x \<le> f (last xs)"
proof (induction xs rule: rev_induct)
  case Nil
  then show ?case by simp
next
  case (snoc y ys)
  then show ?case by (auto simp: sorted_append)
qed

end
