(* ===== verification/Models.thy ===== *)
theory Models
  imports Prelude
begin

text \<open>
  The data model of \<open>src/models.py\<close>: the \<open>User\<close> and \<open>Transaction\<close> classes
  as records, and the \<open>datetime\<close> values of the \<open>Transaction.date\<close> column
  (\<open>db.DateTime\<close>) as a datatype, ordered the way Python orders \<open>datetime\<close>
  objects (field by field, year first), with \<open>datetime.date()\<close> and the calendar
  rules of Python's \<open>datetime\<close> module (\<open>MINYEAR = 1\<close>, \<open>MAXYEAR = 9999\<close>,
  Gregorian leap years).
\<close>

subsection \<open>Dates and times\<close>

datatype datetime =
  DateTime (dt_year: nat) (dt_month: nat) (dt_day: nat)
    (dt_hour: nat) (dt_minute: nat) (dt_second: nat) (dt_microsecond: nat)

datatype date = Date (d_year: nat) (d_month: nat) (d_day: nat)

text \<open>Python compares two \<open>datetime\<close>s by the tuple of their fields.\<close>

definition dt_key :: "datetime \<Rightarrow> nat \<times> nat \<times> nat \<times> nat \<times> nat \<times> nat \<times> nat" where
  "dt_key d = (dt_year d, dt_month d, dt_day d, dt_hour d, dt_minute d, dt_second d,
               dt_microsecond d)"

instantiation datetime :: linorder
begin

definition less_eq_datetime :: "datetime \<Rightarrow> datetime \<Rightarrow> bool" where
  "a \<le> b \<longleftrightarrow> dt_key a \<le> dt_key b"

definition less_datetime :: "datetime \<Rightarrow> datetime \<Rightarrow> bool" where
  "a < b \<longleftrightarrow> dt_key a < dt_key b"

instance
proof
  fix a b c :: datetime
  show "a < b \<longleftrightarrow> a \<le> b \<and> \<not> b \<le> a"
    by (simp add: less_eq_datetime_def less_datetime_def less_le_not_le)
  show "a \<le> a" by (simp add: less_eq_datetime_def)
  show "a \<le> b \<Longrightarrow> b \<le> c \<Longrightarrow> a \<le> c"
    unfolding less_eq_datetime_def by (rule order_trans)
  show "a \<le> b \<Longrightarrow> b \<le> a \<Longrightarrow> a = b"
  proof -
    assume "a \<le> b" "b \<le> a"
    then have "dt_key a = dt_key b" unfolding less_eq_datetime_def by (rule antisym)
    then show "a = b" by (cases a; cases b) (simp add: dt_key_def)
  qed
  show "a \<le> b \<or> b \<le> a"
    by (simp add: less_eq_datetime_def linear)
qed

end

text \<open>\<open>datetime.date()\<close>: the calendar day, the time of day dropped.\<close>

definition dt_date :: "datetime \<Rightarrow> date" where
  "dt_date d = Date (dt_year d) (dt_month d) (dt_day d)"

text \<open>\<open>calendar.isleap\<close> and the month lengths of \<open>datetime\<close>.\<close>

definition is_leap :: "nat \<Rightarrow> bool" where
  "is_leap y \<longleftrightarrow> y mod 4 = 0 \<and> (y mod 100 \<noteq> 0 \<or> y mod 400 = 0)"

definition days_in_month :: "nat \<Rightarrow> nat \<Rightarrow> nat" where
  "days_in_month y m =
     (if m = 2 then (if is_leap y then 29 else 28)
      else if m \<in> {4, 6, 9, 11} then 30 else 31)"

text \<open>The arguments \<open>datetime.date(y, m, d)\<close> accepts without \<open>ValueError\<close>.\<close>

definition valid_ymd :: "nat \<Rightarrow> nat \<Rightarrow> nat \<Rightarrow> bool" where
  "valid_ymd y m d \<longleftrightarrow>
     1 \<le> y \<and> y \<le> 9999 \<and> 1 \<le> m \<and> m \<le> 12 \<and> 1 \<le> d \<and> d \<le> days_in_month y m"

definition valid_datetime :: "datetime \<Rightarrow> bool" where
  "valid_datetime t \<longleftrightarrow>
     valid_ymd (dt_year t) (dt_month t) (dt_day t) \<and> dt_hour t < 24 \<and> dt_minute t < 60
     \<and> dt_second t < 60 \<and> dt_microsecond t < 1000000"

subsection \<open>The two tables\<close>

text \<open>\<open>class User(db.Model)\<close>: the \<open>transactions\<close> relationship is not a column;
  it is the query of the transactions whose \<open>user_id\<close> is the user's \<open>id\<close>
  (theory \<open>Store\<close>).\<close>

record user =
  u_id :: nat
  name :: "string option"
  email :: string
  password :: string

text \<open>\<open>class Transaction(db.Model)\<close>. The nullable columns \<open>note\<close> (field \<open>t_note\<close>: \<open>note\<close> is an Isar keyword) and
  \<open>payment_method\<close> are options; \<open>date\<close> is nullable too but its default
  \<open>datetime.utcnow\<close> fills it on every insert, so a stored row always has one.\<close>

record transaction =
  t_id :: nat
  type :: string
  category :: string
  amount :: amount
  date :: datetime
  t_note :: "string option"
  user_id :: nat
  payment_method :: "string option"

text \<open>The classification the dashboard applies: \<open>t.type.lower() == 'income'\<close>
  and \<open>t.type.lower() == 'expense'\<close>.\<close>

definition is_income :: "transaction \<Rightarrow> bool" where
  "is_income t \<longleftrightarrow> py_lower (type t) = ''income''"

definition is_expense :: "transaction \<Rightarrow> bool" where
  "is_expense t \<longleftrightarrow> py_lower (type t) = ''expense''"


subsection \<open>Lemmas\<close>

lemma dt_key_inj: "dt_key a = dt_key b \<Longrightarrow> a = b"
  by (cases a; cases b) (simp add: dt_key_def)

lemma days_in_month_bounds: "28 \<le> days_in_month y m \<and> days_in_month y m \<le> 31"
  by (simp add: days_in_month_def)

lemma valid_datetime_month [intro]:
  "valid_datetime t \<Longrightarrow> dt_month t \<in> {1..12}"
  by (simp add: valid_datetime_def valid_ymd_def)

lemma not_income_and_expense [simp]: "is_income t \<Longrightarrow> \<not> is_expense t"
  by (simp add: is_income_def is_expense_def)

end
