(* ===== verification/DateParse.thy ===== *)
theory DateParse
  imports Models
begin

text \<open>
  \<open>datetime.strptime(s, '%Y-%m-%d')\<close>, which \<open>add_transaction\<close> applies to the
  form's date and \<open>dashboard\<close> to the \<open>filter_date\<close> query argument.  The
  standard library (\<open>_strptime.py\<close>) turns the format into the regular expression
  \<open>(?P<Y>\d\d\d\d)-(?P<m>1[0-2]|0[1-9]|[1-9])-(?P<d>3[01]|[12]\d|0[1-9]|[1-9]| [1-9])\<close>,
  takes the first match that \<open>re.match\<close> finds at the start of the string, raises
  \<open>ValueError\<close> when there is none or when characters are left after it
  ("unconverted data remains"), and then builds \<open>datetime(year, month, day)\<close>, which
  raises \<open>ValueError\<close> for a day outside the month or the year \<open>0\<close>.

  A regular expression without repetition is modelled as a matcher: the list of
  (value, rest of the input) pairs in the order the backtracking engine tries them, so
  the first element is the match \<open>re.match\<close> returns.  Digits are ASCII digits.
\<close>

subsection \<open>Matchers\<close>

type_synonym 'a matcher = "string \<Rightarrow> ('a \<times> string) list"

definition is_digit :: "char \<Rightarrow> bool" where
  "is_digit c \<longleftrightarrow> 48 \<le> (of_char c :: nat) \<and> (of_char c :: nat) \<le> 57"

definition digit_val :: "char \<Rightarrow> nat" where
  "digit_val c = of_char c - 48"

definition re_char :: "(char \<Rightarrow> bool) \<Rightarrow> char matcher" where
  "re_char P s = (case s of c # r \<Rightarrow> if P c then [(c, r)] else [] | [] \<Rightarrow> [])"

definition re_seq :: "'a matcher \<Rightarrow> 'b matcher \<Rightarrow> ('a \<times> 'b) matcher" where
  "re_seq p q s = concat (map (\<lambda>(a, r). map (\<lambda>(b, r'). ((a, b), r')) (q r)) (p s))"

definition re_alt :: "'a matcher \<Rightarrow> 'a matcher \<Rightarrow> 'a matcher" where
  "re_alt p q s = p s @ q s"

definition re_map :: "('a \<Rightarrow> 'b) \<Rightarrow> 'a matcher \<Rightarrow> 'b matcher" where
  "re_map f p s = map (\<lambda>(a, r). (f a, r)) (p s)"

subsection \<open>The three directives and the format\<close>

text \<open>\<open>%Y\<close>: \<open>\d\d\d\d\<close>, read by \<open>int()\<close>.\<close>

definition re_Y :: "nat matcher" where
  "re_Y = re_map (\<lambda>(((a, b), c), d).
             1000 * digit_val a + 100 * digit_val b + 10 * digit_val c + digit_val d)
           (re_seq (re_seq (re_seq (re_char is_digit) (re_char is_digit))
              (re_char is_digit)) (re_char is_digit))"

text \<open>\<open>%m\<close>: \<open>1[0-2]|0[1-9]|[1-9]\<close>.\<close>

definition re_m :: "nat matcher" where
  "re_m = re_alt (re_map (\<lambda>(_, b). 10 + digit_val b)
             (re_seq (re_char (\<lambda>c. c = CHR ''1'')) (re_char (\<lambda>c. c \<in> set ''012''))))
          (re_alt (re_map (\<lambda>(_, b). digit_val b)
             (re_seq (re_char (\<lambda>c. c = CHR ''0'')) (re_char (\<lambda>c. c \<in> set ''123456789''))))
           (re_map digit_val (re_char (\<lambda>c. c \<in> set ''123456789''))))"

text \<open>\<open>%d\<close>: \<open>3[01]|[12]\d|0[1-9]|[1-9]| [1-9]\<close>; \<open>int(' 7')\<close> is \<open>7\<close>.\<close>

definition re_d :: "nat matcher" where
  "re_d = re_alt (re_map (\<lambda>(_, b). 30 + digit_val b)
             (re_seq (re_char (\<lambda>c. c = CHR ''3'')) (re_char (\<lambda>c. c \<in> set ''01''))))
          (re_alt (re_map (\<lambda>(a, b). 10 * digit_val a + digit_val b)
             (re_seq (re_char (\<lambda>c. c \<in> set ''12'')) (re_char is_digit)))
          (re_alt (re_map (\<lambda>(_, b). digit_val b)
             (re_seq (re_char (\<lambda>c. c = CHR ''0'')) (re_char (\<lambda>c. c \<in> set ''123456789''))))
          (re_alt (re_map digit_val (re_char (\<lambda>c. c \<in> set ''123456789'')))
             (re_map (\<lambda>(_, b). digit_val b)
                (re_seq (re_char (\<lambda>c. c = CHR '' '')) (re_char (\<lambda>c. c \<in> set ''123456789'')))))))"

definition re_dash :: "char matcher" where
  "re_dash = re_char (\<lambda>c. c = CHR ''-'')"

definition ymd_pattern :: "(nat \<times> nat \<times> nat) matcher" where
  "ymd_pattern = re_map (\<lambda>(((y, _), (m, _)), d). (y, m, d))
     (re_seq (re_seq (re_seq re_Y re_dash) (re_seq re_m re_dash)) re_d)"

text \<open>\<open>datetime.strptime(s, '%Y-%m-%d')\<close>: midnight of the parsed day.\<close>

definition strptime_ymd :: "string \<Rightarrow> py_error + datetime" where
  "strptime_ymd s =
     (case ymd_pattern s of
        [] \<Rightarrow> Inl ValueError
      | ((y, m, d), rest) # _ \<Rightarrow>
          if rest \<noteq> [] then Inl ValueError
          else if valid_ymd y m d then Inr (DateTime y m d 0 0 0 0)
          else Inl ValueError)"

subsection \<open>ISO dates\<close>

text \<open>\<open>date.isoformat()\<close>, \<open>'%04d-%02d-%02d'\<close>: the form a browser's date
  input submits.\<close>

definition digit_char :: "nat \<Rightarrow> char" where
  "digit_char n = ''0123456789'' ! n"

definition pad2 :: "nat \<Rightarrow> string" where
  "pad2 n = [digit_char (n div 10 mod 10), digit_char (n mod 10)]"

definition pad4 :: "nat \<Rightarrow> string" where
  "pad4 n = [digit_char (n div 1000 mod 10), digit_char (n div 100 mod 10),
             digit_char (n div 10 mod 10), digit_char (n mod 10)]"

definition iso_date :: "date \<Rightarrow> string" where
  "iso_date dd = pad4 (d_year dd) @ CHR ''-'' # pad2 (d_month dd) @ CHR ''-'' # pad2 (d_day dd)"

subsection \<open>Lemmas\<close>

text \<open>The definitions a concrete call of \<open>strptime_ymd\<close> unfolds to.\<close>

lemmas strptime_eval = strptime_ymd_def ymd_pattern_def re_Y_def re_m_def re_d_def re_dash_def
  re_seq_def re_alt_def re_map_def is_digit_def digit_val_def valid_ymd_def days_in_month_def
  is_leap_def

lemma re_char_Cons [simp]: "re_char P (c # r) = (if P c then [(c, r)] else [])"
  by (simp add: re_char_def)

lemma re_char_Nil [simp]: "re_char P [] = []"
  by (simp add: re_char_def)

lemma re_seq_single:
  "p s = [(a, r)] \<Longrightarrow> re_seq p q s = map (\<lambda>(b, r'). ((a, b), r')) (q r)"
  by (simp add: re_seq_def)

lemma re_seq_Cons_head:
  "p s = [(a, r)] \<Longrightarrow> q r = (b, r') # bs \<Longrightarrow> \<exists>cs. re_seq p q s = ((a, b), r') # cs"
  by (simp add: re_seq_def)

lemma nat_range_enum:
  "a \<le> n \<Longrightarrow> n < b \<Longrightarrow> (\<forall>k\<in>set [a..<b]. P k) \<Longrightarrow> P (n::nat)"
  by simp

lemma digit_char_digit:
  "n < 10 \<Longrightarrow> is_digit (digit_char n) \<and> digit_val (digit_char n) = n"
  by (rule nat_range_enum [of 0 n 10])
    (simp_all del: set_upt add: upt_conv_Cons digit_char_def is_digit_def digit_val_def)

lemma pad4_digits:
  "1000 * ((y::nat) div 1000) + 100 * (y div 100 mod 10) + 10 * (y div 10 mod 10) + y mod 10 = y"
proof -
  have a: "y = 10 * (y div 10) + y mod 10" by simp
  have d2: "y div 100 = y div 10 div 10" and d3: "y div 1000 = y div 100 div 10"
    using div_mult2_eq [of y 10 10] div_mult2_eq [of y 100 10] by simp_all
  have b: "y div 10 = 10 * (y div 100) + y div 10 mod 10"
    using div_mult_mod_eq [of "y div 10" 10] d2 by simp
  have c: "y div 100 = 10 * (y div 1000) + y div 100 mod 10"
    using div_mult_mod_eq [of "y div 100" 10] d3 by simp
  from a b c show ?thesis by linarith
qed

lemma re_Y_pad4: "y < 10000 \<Longrightarrow> re_Y (pad4 y @ r) = [(y, r)]"
  by (simp add: re_Y_def pad4_def re_seq_def re_map_def digit_char_digit pad4_digits)

text \<open>A two-digit month is matched by one alternative only once the dash after it
  is required: \<open>10\<close> also matches \<open>[1-9]\<close>, leaving \<open>0-\<close>.\<close>

lemma re_m_dash_pad2:
  "1 \<le> m \<Longrightarrow> m \<le> 12 \<Longrightarrow> re_seq re_m re_dash (pad2 m @ CHR ''-'' # r) = [((m, CHR ''-''), r)]"
  by (rule nat_range_enum [of 1 m 13])
    (simp_all del: set_upt add: upt_conv_Cons re_m_def re_dash_def re_seq_def re_alt_def
      re_map_def pad2_def digit_char_def digit_val_def)

lemma re_d_pad2: "1 \<le> d \<Longrightarrow> d \<le> 31 \<Longrightarrow> \<exists>ds. re_d (pad2 d) = (d, []) # ds"
  by (rule nat_range_enum [of 1 d 32])
    (simp_all del: set_upt add: upt_conv_Cons re_d_def re_seq_def re_alt_def re_map_def
      pad2_def digit_char_def digit_val_def is_digit_def)

lemma valid_ymd_bounds: "valid_ymd y m d \<Longrightarrow> y < 10000 \<and> 1 \<le> m \<and> m \<le> 12 \<and> 1 \<le> d \<and> d \<le> 31"
  unfolding valid_ymd_def using days_in_month_bounds [of y m] by linarith

lemma ymd_pattern_iso:
  assumes "valid_ymd y m d"
  shows "\<exists>ps. ymd_pattern (iso_date (Date y m d)) = ((y, m, d), []) # ps"
proof -
  from valid_ymd_bounds [OF assms] have b: "y < 10000" "1 \<le> m" "m \<le> 12" "1 \<le> d" "d \<le> 31"
    by simp_all
  let ?r = "pad2 m @ CHR ''-'' # pad2 d"
  have Y: "re_seq re_Y re_dash (pad4 y @ CHR ''-'' # ?r) = [((y, CHR ''-''), ?r)]"
    using b(1) by (simp add: re_seq_single re_Y_pad4 re_dash_def)
  have YM: "re_seq (re_seq re_Y re_dash) (re_seq re_m re_dash) (pad4 y @ CHR ''-'' # ?r)
      = [(((y, CHR ''-''), (m, CHR ''-'')), pad2 d)]"
    using b(2,3) by (simp add: re_seq_single [where p = "re_seq re_Y re_dash", OF Y] re_m_dash_pad2)
  from b(4,5) obtain ds where D: "re_d (pad2 d) = (d, []) # ds"
    using re_d_pad2 by blast
  from re_seq_Cons_head [where p = "re_seq (re_seq re_Y re_dash) (re_seq re_m re_dash)"
      and q = re_d, OF YM D]
  obtain cs where
    "re_seq (re_seq (re_seq re_Y re_dash) (re_seq re_m re_dash)) re_d (pad4 y @ CHR ''-'' # ?r)
       = ((((y, CHR ''-''), (m, CHR ''-'')), d), []) # cs" ..
  then show ?thesis
    by (simp add: ymd_pattern_def re_map_def iso_date_def)
qed

lemma strptime_ymd_Inr:
  "strptime_ymd s = Inr t \<Longrightarrow> \<exists>y m d. t = DateTime y m d 0 0 0 0 \<and> valid_ymd y m d"
  by (auto simp: strptime_ymd_def split: list.splits prod.splits if_splits)

text \<open>C19: Round trip: \<open>datetime.strptime(s, '%Y-%m-%d')\<close> reads back, as midnight of
  that day, every valid calendar date that \<open>date.isoformat()\<close> prints.\<close>

theorem strptime_iso_roundtrip:
  "valid_ymd y m d \<Longrightarrow> strptime_ymd (iso_date (Date y m d)) = Inr (DateTime y m d 0 0 0 0)"
  using ymd_pattern_iso [of y m d] by (auto simp: strptime_ymd_def)


theorem strptime_iso_roundtrip_witness:
  "valid_ymd 2024 2 29 \<and> strptime_ymd (iso_date (Date 2024 2 29)) = Inr (DateTime 2024 2 29 0 0 0 0)"
proof -
  have h: "valid_ymd 2024 2 29" by (simp add: valid_ymd_def days_in_month_def is_leap_def)
  show ?thesis using h strptime_iso_roundtrip [OF h] by blast
qed




end
