(* ===== verification/Aggregator.thy ===== *)
theory Aggregator
  imports DateParse
begin

text \<open>
  The transaction aggregator: the body of \<open>dashboard()\<close> in \<open>src/app.py\<close>
  (lines 155--195) after the session and user checks, as a pure function of the user's
  transactions (in the order \<open>user.transactions\<close> yields them), the optional
  \<open>filter_date\<close> query argument and the current year.  Each of the five derived
  views has its own definition, in the code's order, and \<open>dashboard_view\<close> composes
  them into the values the template receives.
\<close>

subsection \<open>Today's income, expense and balance\<close>

text \<open>The guard \<open>not filter_date or t.date.date() == datetime.strptime(filter_date,
  '%Y-%m-%d').date()\<close>: an absent or empty argument admits every transaction; otherwise
  the argument is parsed again for each transaction that reaches the guard, and a parse
  failure raises.\<close>

definition date_filter_ok :: "string option \<Rightarrow> transaction \<Rightarrow> py_error + bool" where
  "date_filter_ok fd t =
     (case fd of
        None \<Rightarrow> Inr True
      | Some s \<Rightarrow>
          if s = [] then Inr True
          else (case strptime_ymd s of
                  Inl e \<Rightarrow> Inl e
                | Inr d \<Rightarrow> Inr (dt_date (date t) = dt_date d)))"

text \<open>\<open>sum(t.amount for t in user.transactions if P(t) and guard(t))\<close>: the
  generator is consumed from the left; \<open>and\<close> evaluates the guard only where the type
  test holds, so only those transactions can raise.\<close>

fun sum_matching ::
  "(transaction \<Rightarrow> bool) \<Rightarrow> string option \<Rightarrow> amount \<Rightarrow> transaction list \<Rightarrow> py_error + amount"
where
  "sum_matching P fd acc [] = Inr acc"
| "sum_matching P fd acc (t # ts) =
     (if P t then
        (case date_filter_ok fd t of
           Inl e \<Rightarrow> Inl e
         | Inr b \<Rightarrow> sum_matching P fd (if b then acc + amount t else acc) ts)
      else sum_matching P fd acc ts)"

definition today_income :: "string option \<Rightarrow> transaction list \<Rightarrow> py_error + amount" where
  "today_income fd ts = sum_matching is_income fd 0 ts"

definition today_expense :: "string option \<Rightarrow> transaction list \<Rightarrow> py_error + amount" where
  "today_expense fd ts = sum_matching is_expense fd 0 ts"

subsection \<open>Payment method summary\<close>

text \<open>\<open>sum(t.amount for t in user.transactions if t.payment_method == m)\<close>; a
  \<open>None\<close> method equals no string.\<close>

definition total_method :: "string \<Rightarrow> transaction list \<Rightarrow> amount" where
  "total_method m ts = py_sum (map amount (filter (\<lambda>t. payment_method t = Some m) ts))"

definition total_cash :: "transaction list \<Rightarrow> amount" where
  "total_cash ts = total_method ''Cash'' ts"

definition total_upi :: "transaction list \<Rightarrow> amount" where
  "total_upi ts = total_method ''UPI'' ts"

definition total_amount :: "transaction list \<Rightarrow> amount" where
  "total_amount ts = total_cash ts + total_upi ts"

subsection \<open>Monthly summary\<close>

text \<open>One iteration of \<open>for t in user.transactions\<close> over the two dicts
  \<open>monthly_income\<close> and \<open>monthly_expense\<close>.\<close>

type_synonym month_totals = "nat \<rightharpoonup> amount"

definition monthly_step ::
  "nat \<Rightarrow> month_totals \<times> month_totals \<Rightarrow> transaction \<Rightarrow> month_totals \<times> month_totals"
where
  "monthly_step current_year acc t =
     (let (mi, me) = acc in
      if dt_year (date t) = current_year then
        (let month = dt_month (date t) in
         if is_income t then (mi(month \<mapsto> py_dict_get mi month 0 + amount t), me)
         else if is_expense t then (mi, me(month \<mapsto> py_dict_get me month 0 + amount t))
         else (mi, me))
      else (mi, me))"

definition monthly_summary :: "nat \<Rightarrow> transaction list \<Rightarrow> month_totals \<times> month_totals" where
  "monthly_summary current_year ts = foldl (monthly_step current_year) (Map.empty, Map.empty) ts"

subsection \<open>Running balance\<close>

text \<open>One iteration of \<open>for t in transactions\<close>: income adds, every other type
  subtracts, and the pair \<open>(t, balance)\<close> is appended.\<close>

definition rb_step ::
  "amount \<times> (transaction \<times> amount) list \<Rightarrow> transaction \<Rightarrow> amount \<times> (transaction \<times> amount) list"
where
  "rb_step st t =
     (let (balance, rb) = st;
          balance' = (if is_income t then balance + amount t else balance - amount t)
      in (balance', rb @ [(t, balance')]))"

text \<open>\<open>sorted(user.transactions, key=lambda x: x.date)\<close> is a stable sort;
  \<open>sort_key\<close> is the stable insertion sort of the library.\<close>

definition running_balance :: "transaction list \<Rightarrow> (transaction \<times> amount) list" where
  "running_balance ts = snd (foldl rb_step (0, []) (sort_key date ts))"

subsection \<open>Recent transactions\<close>

text \<open>\<open>running_balance[-5:][::-1]\<close>, of which the template receives the
  transactions.\<close>

definition recent_transactions :: "(transaction \<times> amount) list \<Rightarrow> transaction list" where
  "recent_transactions rb = map fst (rev (py_tail_slice 5 rb))"

subsection \<open>The view\<close>

record dashboard_page =
  v_filter_date :: "string option"
  v_today_income :: amount
  v_today_expense :: amount
  v_today_balance :: amount
  v_total_cash :: amount
  v_total_upi :: amount
  v_total_amount :: amount
  v_current_year :: nat
  v_monthly_income :: month_totals
  v_monthly_expense :: month_totals
  v_running_balance :: "(transaction \<times> amount) list"
  v_recent :: "transaction list"

text \<open>The computation of \<open>dashboard()\<close> from line 156 to the
  \<open>render_template\<close> call: the two generator sums can raise, the rest cannot.\<close>

definition dashboard_view ::
  "nat \<Rightarrow> string option \<Rightarrow> transaction list \<Rightarrow> py_error + dashboard_page"
where
  "dashboard_view current_year fd ts =
     (case today_income fd ts of
        Inl e \<Rightarrow> Inl e
      | Inr income \<Rightarrow>
          (case today_expense fd ts of
             Inl e \<Rightarrow> Inl e
           | Inr expense \<Rightarrow>
               (let (mi, me) = monthly_summary current_year ts;
                    rb = running_balance ts
                in Inr \<lparr>v_filter_date = fd, v_today_income = income, v_today_expense = expense,
                        v_today_balance = income - expense,
                        v_total_cash = total_cash ts, v_total_upi = total_upi ts,
                        v_total_amount = total_amount ts, v_current_year = current_year,
                        v_monthly_income = mi, v_monthly_expense = me,
                        v_running_balance = rb, v_recent = recent_transactions rb\<rparr>)))"


subsection \<open>Reference specification\<close>

text \<open>What the dashboard promises (spec, section 4.1), written without the code's
  loops: the filter argument read once, the period totals, the per-month totals and the
  running balance as prefix sums of signed amounts.\<close>

definition parsed_filter :: "string option \<Rightarrow> py_error + date option" where
  "parsed_filter fd =
     (case fd of
        None \<Rightarrow> Inr None
      | Some s \<Rightarrow>
          if s = [] then Inr None
          else (case strptime_ymd s of Inl e \<Rightarrow> Inl e | Inr d \<Rightarrow> Inr (Some (dt_date d))))"

definition in_period :: "date option \<Rightarrow> transaction \<Rightarrow> bool" where
  "in_period pd t = (case pd of None \<Rightarrow> True | Some d \<Rightarrow> dt_date (date t) = d)"

definition period_total :: "(transaction \<Rightarrow> bool) \<Rightarrow> date option \<Rightarrow> transaction list \<Rightarrow> amount" where
  "period_total P pd ts = sum_list (map amount (filter (\<lambda>t. P t \<and> in_period pd t) ts))"

definition month_total :: "(transaction \<Rightarrow> bool) \<Rightarrow> nat \<Rightarrow> nat \<Rightarrow> transaction list \<Rightarrow> amount" where
  "month_total P cy m ts =
     sum_list (map amount (filter (\<lambda>t. P t \<and> dt_year (date t) = cy \<and> dt_month (date t) = m) ts))"

definition month_map :: "(transaction \<Rightarrow> bool) \<Rightarrow> nat \<Rightarrow> transaction list \<Rightarrow> month_totals" where
  "month_map P cy ts m =
     (if \<exists>t\<in>set ts. P t \<and> dt_year (date t) = cy \<and> dt_month (date t) = m
      then Some (month_total P cy m ts) else None)"

definition signed_amount :: "transaction \<Rightarrow> amount" where
  "signed_amount t = (if is_income t then amount t else - amount t)"

fun balances_from :: "amount \<Rightarrow> transaction list \<Rightarrow> (transaction \<times> amount) list" where
  "balances_from b [] = []"
| "balances_from b (t # ts) = (t, b + signed_amount t) # balances_from (b + signed_amount t) ts"

subsection \<open>Sample data\<close>

text \<open>The transactions of the scenarios of the spec's section 8.\<close>

definition tx :: "nat \<Rightarrow> string \<Rightarrow> amount \<Rightarrow> nat \<Rightarrow> nat \<Rightarrow> nat \<Rightarrow> string \<Rightarrow> transaction" where
  "tx i ty a y m d pm = \<lparr>t_id = i, type = ty, category = ''c'', amount = a,
     date = DateTime y m d 0 0 0 0, t_note = None, user_id = 1, payment_method = Some pm\<rparr>"

definition sample_txns :: "transaction list" where
  "sample_txns = [tx 1 ''income'' 100 2024 1 5 ''Cash'', tx 2 ''expense'' 30 2024 1 6 ''UPI'',
                  tx 3 ''income'' 50 2024 2 1 ''Bank'']"

definition payment_txns :: "transaction list" where
  "payment_txns = [tx 1 ''income'' 100 2024 3 1 ''Cash'', tx 2 ''income'' 50 2024 3 2 ''UPI'',
                   tx 3 ''income'' 20 2024 3 3 ''Bank'']"

subsection \<open>Lemmas\<close>

lemma date_filter_ok_parsed:
  "parsed_filter fd = Inr pd \<Longrightarrow> date_filter_ok fd t = Inr (in_period pd t)"
  by (auto simp: parsed_filter_def date_filter_ok_def in_period_def
      split: option.splits if_splits sum.splits)

lemma date_filter_ok_error:
  "parsed_filter fd = Inl e \<Longrightarrow> date_filter_ok fd t = Inl e"
  by (auto simp: parsed_filter_def date_filter_ok_def split: option.splits if_splits sum.splits)

lemma sum_matching_ok:
  "parsed_filter fd = Inr pd \<Longrightarrow>
     sum_matching P fd acc ts = Inr (acc + period_total P pd ts)"
  by (induction ts arbitrary: acc) (auto simp: period_total_def date_filter_ok_parsed)

lemma sum_matching_error:
  "parsed_filter fd = Inl e \<Longrightarrow>
     sum_matching P fd acc ts = (if \<exists>t\<in>set ts. P t then Inl e else Inr acc)"
  by (induction ts arbitrary: acc) (auto simp: date_filter_ok_error)

lemma monthly_summary_snoc:
  "monthly_summary cy (ts @ [t]) = monthly_step cy (monthly_summary cy ts) t"
  by (simp add: monthly_summary_def)

lemma month_map_snoc:
  "month_map P cy (ts @ [t]) =
     (if P t \<and> dt_year (date t) = cy
      then (month_map P cy ts)(dt_month (date t) \<mapsto> py_dict_get (month_map P cy ts) (dt_month (date t)) 0 + amount t)
      else month_map P cy ts)"
  by (auto simp: fun_eq_iff month_map_def month_total_def py_dict_get_def)

lemma monthly_summary_eq:
  "monthly_summary cy ts = (month_map is_income cy ts, month_map is_expense cy ts)"
proof (induction ts rule: rev_induct)
  case Nil
  show ?case by (simp add: monthly_summary_def month_map_def fun_eq_iff)
next
  case (snoc t ts)
  show ?case
    using snoc.IH by (auto simp: monthly_summary_snoc month_map_snoc monthly_step_def Let_def)
qed

lemma foldl_rb_step:
  "foldl rb_step (b, acc) xs = (b + sum_list (map signed_amount xs), acc @ balances_from b xs)"
  by (induction xs arbitrary: b acc) (simp_all add: rb_step_def signed_amount_def Let_def algebra_simps)

lemma balances_from_fst: "map fst (balances_from b xs) = xs"
  by (induction xs arbitrary: b) simp_all

lemma balances_from_nth:
  "i < length xs \<Longrightarrow> balances_from b xs ! i = (xs ! i, b + sum_list (map signed_amount (take (Suc i) xs)))"
proof (induction xs arbitrary: b i)
  case Nil
  then show ?case by simp
next
  case (Cons x xs)
  then show ?case by (cases i) (simp_all add: algebra_simps)
qed

lemma length_balances_from [simp]: "length (balances_from b xs) = length xs"
  by (induction xs arbitrary: b) simp_all

lemma running_balance_eq: "running_balance ts = balances_from 0 (sort_key date ts)"
  by (simp add: running_balance_def foldl_rb_step)

lemma sum_matching_mono:
  "sum_matching P fd acc ts = Inr r \<Longrightarrow> (\<forall>t\<in>set ts. 0 \<le> amount t) \<Longrightarrow> acc \<le> r"
proof (induction ts arbitrary: acc)
  case Nil
  then show ?case by simp
next
  case (Cons t ts)
  then show ?case
    by (fastforce split: if_splits sum.splits intro: order_trans [rotated])
qed

lemma dashboard_view_Inr:
  "dashboard_view cy fd ts = Inr v \<longleftrightarrow>
     (\<exists>i e. today_income fd ts = Inr i \<and> today_expense fd ts = Inr e \<and>
        v = \<lparr>v_filter_date = fd, v_today_income = i, v_today_expense = e,
             v_today_balance = i - e, v_total_cash = total_cash ts, v_total_upi = total_upi ts,
             v_total_amount = total_amount ts, v_current_year = cy,
             v_monthly_income = fst (monthly_summary cy ts),
             v_monthly_expense = snd (monthly_summary cy ts),
             v_running_balance = running_balance ts,
             v_recent = recent_transactions (running_balance ts)\<rparr>)"
  by (auto simp: dashboard_view_def Let_def split: sum.splits prod.splits)

lemma dashboard_view_fields:
  "dashboard_view cy fd ts = Inr v \<Longrightarrow>
     today_income fd ts = Inr (v_today_income v) \<and> today_expense fd ts = Inr (v_today_expense v) \<and>
     v_today_balance v = v_today_income v - v_today_expense v \<and>
     v_total_cash v = total_cash ts \<and> v_total_upi v = total_upi ts \<and>
     v_total_amount v = total_amount ts \<and> v_current_year v = cy \<and>
     v_monthly_income v = fst (monthly_summary cy ts) \<and>
     v_monthly_expense v = snd (monthly_summary cy ts) \<and>
     v_running_balance v = running_balance ts \<and>
     v_recent v = recent_transactions (running_balance ts)"
  by (auto simp: dashboard_view_Inr)

lemma total_method_nonneg:
  "(\<forall>t\<in>set ts. 0 \<le> amount t) \<Longrightarrow> 0 \<le> total_method m ts"
  unfolding total_method_def py_sum_eq by (rule sum_list_nonneg) auto

lemma recent_running:
  "recent_transactions (running_balance ts) = rev (py_tail_slice 5 (sort_key date ts))"
  by (simp add: recent_transactions_def running_balance_eq py_tail_slice_def
      flip: rev_map drop_map add: balances_from_fst)

lemmas sample_eval = sample_txns_def payment_txns_def tx_def is_income_def is_expense_def
  py_lower_def lower_char_def less_eq_datetime_def dt_key_def dt_date_def

lemma parsed_filter_sample: "parsed_filter (Some ''2024-01-06'') = Inr (Some (Date 2024 1 6))"
  by (simp add: parsed_filter_def strptime_eval dt_date_def)

lemma sample_view_exists: "\<exists>v. dashboard_view 2024 None sample_txns = Inr v"
  by (simp add: dashboard_view_Inr today_income_def today_expense_def date_filter_ok_def
      sample_eval)

text \<open>C1: With an absent, empty or well-formed \<open>filter_date\<close>, the dashboard's income and expense are the sums of the amounts of the income and the expense transactions of the filtered day (all days without a filter), and its balance is their difference.\<close>

theorem dashboard_period_totals:
  "parsed_filter fd = Inr pd \<Longrightarrow>
     \<exists>v. dashboard_view cy fd ts = Inr v \<and>
         v_today_income v = period_total is_income pd ts \<and>
         v_today_expense v = period_total is_expense pd ts \<and>
         v_today_balance v = period_total is_income pd ts - period_total is_expense pd ts"
  by (simp add: dashboard_view_Inr today_income_def today_expense_def sum_matching_ok)

theorem dashboard_period_totals_witness:
  "parsed_filter (Some ''2024-01-06'') = Inr (Some (Date 2024 1 6)) \<and>
   (\<exists>v. dashboard_view 2024 (Some ''2024-01-06'') sample_txns = Inr v \<and>
        v_today_income v = period_total is_income (Some (Date 2024 1 6)) sample_txns \<and>
        v_today_expense v = period_total is_expense (Some (Date 2024 1 6)) sample_txns \<and>
        v_today_balance v = period_total is_income (Some (Date 2024 1 6)) sample_txns
                            - period_total is_expense (Some (Date 2024 1 6)) sample_txns)"
  using parsed_filter_sample dashboard_period_totals [OF parsed_filter_sample] by blast


text \<open>C2: The running balance lists the transactions sorted by date, and the balance paired with the i-th of them is the sum of the signed amounts (income added, every other type subtracted) of the first i+1 of them: the loop computes the prefix sums.\<close>

theorem running_balance_prefix_sums:
  "i < length ts \<Longrightarrow>
     running_balance ts ! i = (sort_key date ts ! i, sum_list (map signed_amount (take (Suc i) (sort_key date ts))))"
  by (simp add: running_balance_eq balances_from_nth)

theorem running_balance_prefix_sums_witness:
  "1 < length sample_txns \<and>
   running_balance sample_txns ! 1 =
     (sort_key date sample_txns ! 1, sum_list (map signed_amount (take (Suc 1) (sort_key date sample_txns))))"
proof -
  have h: "1 < length sample_txns" by (simp add: sample_txns_def)
  show ?thesis using h running_balance_prefix_sums [OF h] by blast
qed


text \<open>C3: The running balance is a stable sort of the user's transactions by date: it holds each of them once, in non-decreasing date order, and transactions of equal date keep the order the query returned them in.\<close>

theorem running_balance_sorted_stable:
  "map fst (running_balance ts) = sort_key date ts \<and>
   sorted (map (date \<circ> fst) (running_balance ts)) \<and>
   mset (map fst (running_balance ts)) = mset ts \<and>
   (\<forall>k. filter (\<lambda>t. date t = k) (map fst (running_balance ts)) = filter (\<lambda>t. date t = k) ts)"
  by (simp add: running_balance_eq balances_from_fst sort_key_stable flip: map_map)


text \<open>C4: The two monthly dicts the dashboard builds are the reference month maps: a month is a key exactly when some income (resp. expense) transaction of the current year falls in it, and its value is the sum of their amounts.\<close>

theorem dashboard_monthly_refines:
  "dashboard_view cy fd ts = Inr v \<Longrightarrow>
     v_monthly_income v = month_map is_income cy ts \<and> v_monthly_expense v = month_map is_expense cy ts"
  by (auto simp: dashboard_view_Inr monthly_summary_eq)

theorem dashboard_monthly_refines_witness:
  "\<exists>v. dashboard_view 2024 None sample_txns = Inr v \<and>
       v_monthly_income v = month_map is_income 2024 sample_txns \<and>
       v_monthly_expense v = month_map is_expense 2024 sample_txns"
  using sample_view_exists dashboard_monthly_refines by blast


text \<open>C5: Re-running the running balance on a reordering of the transactions that keeps the relative order of same-date transactions gives the same sequence of pairs.\<close>

theorem running_balance_input_order:
  "(\<forall>k. filter (\<lambda>t. date t = k) ts' = filter (\<lambda>t. date t = k) ts) \<Longrightarrow>
     running_balance ts' = running_balance ts"
proof -
  assume same: "\<forall>k. filter (\<lambda>t. date t = k) ts' = filter (\<lambda>t. date t = k) ts"
  have ms: "mset ts' = mset ts"
  proof (rule multiset_eqI)
    fix x
    have "count (mset ts') x = count (mset (filter (\<lambda>t. date t = date x) ts')) x"
      by (simp add: mset_filter)
    also have "\<dots> = count (mset ts) x"
      using same by (simp add: mset_filter)
    finally show "count (mset ts') x = count (mset ts) x" .
  qed
  have "sort_key date ts' = sort_key date ts"
  proof (rule properties_for_sort_key)
    show "mset (sort_key date ts) = mset ts'" using ms by simp
    show "sorted (map date (sort_key date ts))" by simp
    fix k
    have "filter (\<lambda>x. date k = date x) (sort_key date ts) = filter (\<lambda>x. date x = date k) ts"
      using sort_key_stable [of date "date k" ts] by (simp add: eq_commute)
    also have "\<dots> = filter (\<lambda>x. date x = date k) ts'" using same by simp
    finally show "filter (\<lambda>x. date k = date x) (sort_key date ts) = filter (\<lambda>x. date k = date x) ts'"
      by (simp add: eq_commute)
  qed
  then show ?thesis by (simp add: running_balance_def)
qed

theorem running_balance_input_order_witness:
  "(\<forall>k. filter (\<lambda>t. date t = k) [sample_txns ! 1, sample_txns ! 0, sample_txns ! 2]
        = filter (\<lambda>t. date t = k) sample_txns) \<and>
   running_balance [sample_txns ! 1, sample_txns ! 0, sample_txns ! 2] = running_balance sample_txns"
proof -
  have h: "\<forall>k. filter (\<lambda>t. date t = k) [sample_txns ! 1, sample_txns ! 0, sample_txns ! 2]
        = filter (\<lambda>t. date t = k) sample_txns"
    by (auto simp: sample_txns_def tx_def)
  show ?thesis using h running_balance_input_order [OF h] by blast
qed





text \<open>C7: The payment summary's combined total is the sum of the amounts of exactly the transactions paid by Cash or UPI.\<close>

theorem total_amount_recognised:
  "total_amount ts =
     sum_list (map amount (filter (\<lambda>t. payment_method t = Some ''Cash'' \<or> payment_method t = Some ''UPI'') ts))"
  by (simp add: total_amount_def total_cash_def total_upi_def total_method_def sum_list_filter_disj)


text \<open>C8: With a non-empty filter_date that strptime rejects, the dashboard raises ValueError exactly when the user has an income or expense transaction; otherwise it renders with zero income and expense.\<close>

theorem dashboard_invalid_filter:
  "parsed_filter fd = Inl e \<Longrightarrow>
     (if \<exists>t\<in>set ts. is_income t \<or> is_expense t then dashboard_view cy fd ts = Inl e
      else \<exists>v. dashboard_view cy fd ts = Inr v \<and> v_today_income v = 0 \<and> v_today_expense v = 0)"
  by (auto simp: dashboard_view_def today_income_def today_expense_def sum_matching_error Let_def
      split: prod.splits)

theorem dashboard_invalid_filter_witness:
  "parsed_filter (Some ''2024-13-01'') = Inl ValueError \<and>
   (if \<exists>t\<in>set sample_txns. is_income t \<or> is_expense t
    then dashboard_view 2024 (Some ''2024-13-01'') sample_txns = Inl ValueError
    else \<exists>v. dashboard_view 2024 (Some ''2024-13-01'') sample_txns = Inr v \<and>
              v_today_income v = 0 \<and> v_today_expense v = 0)"
proof -
  have h: "parsed_filter (Some ''2024-13-01'') = Inl ValueError"
    by (simp add: parsed_filter_def strptime_eval)
  show ?thesis using h dashboard_invalid_filter [OF h] by blast
qed


text \<open>C9: When every amount is non-negative, the income, expense, Cash, UPI and combined totals of a rendered dashboard are non-negative.\<close>

theorem dashboard_totals_nonneg:
  "(\<forall>t\<in>set ts. 0 \<le> amount t) \<Longrightarrow> dashboard_view cy fd ts = Inr v \<Longrightarrow>
     0 \<le> v_today_income v \<and> 0 \<le> v_today_expense v \<and> 0 \<le> v_total_cash v \<and>
     0 \<le> v_total_upi v \<and> 0 \<le> v_total_amount v"
proof -
  assume nn: "\<forall>t\<in>set ts. 0 \<le> amount t" and v: "dashboard_view cy fd ts = Inr v"
  note f = dashboard_view_fields [OF v]
  have "0 \<le> v_today_income v"
    using f nn sum_matching_mono [of is_income fd 0 ts "v_today_income v"]
    by (simp add: today_income_def)
  moreover have "0 \<le> v_today_expense v"
    using f nn sum_matching_mono [of is_expense fd 0 ts "v_today_expense v"]
    by (simp add: today_expense_def)
  moreover have "0 \<le> total_cash ts" "0 \<le> total_upi ts"
    using nn by (simp_all add: total_cash_def total_upi_def total_method_nonneg)
  ultimately show ?thesis using f by (simp add: total_amount_def)
qed

theorem dashboard_totals_nonneg_witness:
  "\<exists>v. list_all (\<lambda>t. 0 \<le> amount t) sample_txns \<and> dashboard_view 2024 None sample_txns = Inr v \<and>
       0 \<le> v_today_income v \<and> 0 \<le> v_today_expense v \<and> 0 \<le> v_total_cash v \<and>
       0 \<le> v_total_upi v \<and> 0 \<le> v_total_amount v"
proof -
  have h: "\<forall>t\<in>set sample_txns. 0 \<le> amount t" by (simp add: sample_txns_def tx_def)
  from sample_view_exists obtain v where v: "dashboard_view 2024 None sample_txns = Inr v" ..
  show ?thesis using h v dashboard_totals_nonneg [OF h v] by (auto simp: list_all_iff)
qed


text \<open>C10: The recent list is the last five (or fewer) transactions of the date-sorted sequence, most recent first, and it has min(5, n) entries for n transactions.\<close>

theorem recent_latest_five:
  "recent_transactions (running_balance ts) = rev (py_tail_slice 5 (sort_key date ts)) \<and>
   length (recent_transactions (running_balance ts)) = min 5 (length ts)"
  by (simp add: recent_running)


text \<open>When the user has transactions, the first entry of the dashboard's recent list has the latest date of all of them.\<close>

theorem recent_head_latest:
  "dashboard_view cy fd ts = Inr v \<Longrightarrow> ts \<noteq> [] \<Longrightarrow> \<forall>t\<in>set ts. date t \<le> date (hd (v_recent v))"
proof -
  assume v: "dashboard_view cy fd ts = Inr v" and ne: "ts \<noteq> []"
  let ?s = "sort_key date ts"
  have ne': "?s \<noteq> []" using ne by (simp flip: length_greater_0_conv)
  have len: "length ts - 5 < length ?s" using ne by simp
  have "v_recent v = rev (py_tail_slice 5 ?s)"
    using dashboard_view_fields [OF v] by (simp add: recent_running)
  also have "hd \<dots> = last ?s"
    using ne' by (simp add: hd_rev py_tail_slice_def last_drop [OF len])
  finally have "hd (v_recent v) = last ?s" .
  moreover have "\<forall>t\<in>set ts. date t \<le> date (last ?s)"
    using sorted_map_last_max [of date ?s] by simp
  ultimately show ?thesis by simp
qed

theorem recent_head_latest_witness:
  "\<exists>v. dashboard_view 2024 None sample_txns = Inr v \<and> sample_txns \<noteq> [] \<and>
       (\<forall>t\<in>set sample_txns. date t \<le> date (hd (v_recent v)))"
proof -
  from sample_view_exists obtain v where v: "dashboard_view 2024 None sample_txns = Inr v" ..
  have ne: "sample_txns \<noteq> []" by (simp add: sample_txns_def)
  show ?thesis using v ne recent_head_latest [OF v ne] by blast
qed


text \<open>C12: When every stored date is a valid datetime, the keys of both monthly dicts are month numbers 1 to 12.\<close>

theorem monthly_keys_are_months:
  "(\<forall>t\<in>set ts. valid_datetime (date t)) \<Longrightarrow>
     dom (fst (monthly_summary cy ts)) \<subseteq> {1..12} \<and> dom (snd (monthly_summary cy ts)) \<subseteq> {1..12}"
  by (fastforce simp: monthly_summary_eq month_map_def valid_datetime_def valid_ymd_def split: if_splits)

theorem monthly_keys_are_months_witness:
  "list_all (\<lambda>t. valid_datetime (date t)) sample_txns \<and>
   dom (fst (monthly_summary 2024 sample_txns)) \<subseteq> {1..12} \<and>
   dom (snd (monthly_summary 2024 sample_txns)) \<subseteq> {1..12}"
proof -
  have h: "\<forall>t\<in>set sample_txns. valid_datetime (date t)"
    by (simp add: sample_txns_def tx_def valid_datetime_def valid_ymd_def days_in_month_def)
  show ?thesis using h monthly_keys_are_months [OF h] by (simp add: list_all_iff)
qed


text \<open>C13: A transaction whose payment method is neither Cash nor UPI (another label, or none) changes none of the three payment figures.\<close>

theorem payment_other_excluded:
  "payment_method t \<notin> {Some ''Cash'', Some ''UPI''} \<Longrightarrow>
     total_cash (xs @ t # ys) = total_cash (xs @ ys) \<and> total_upi (xs @ t # ys) = total_upi (xs @ ys) \<and>
     total_amount (xs @ t # ys) = total_amount (xs @ ys)"
  by (simp add: total_amount_def total_cash_def total_upi_def total_method_def)

theorem payment_other_excluded_witness:
  "payment_method (payment_txns ! 2) \<notin> {Some ''Cash'', Some ''UPI''} \<and>
   total_cash (take 2 payment_txns @ payment_txns ! 2 # []) = total_cash (take 2 payment_txns @ []) \<and>
   total_upi (take 2 payment_txns @ payment_txns ! 2 # []) = total_upi (take 2 payment_txns @ []) \<and>
   total_amount (take 2 payment_txns @ payment_txns ! 2 # []) = total_amount (take 2 payment_txns @ [])"
proof -
  have h: "payment_method (payment_txns ! 2) \<notin> {Some ''Cash'', Some ''UPI''}"
    by (simp add: payment_txns_def tx_def)
  show ?thesis using h payment_other_excluded [OF h] by blast
qed


text \<open>On a running balance of at most five entries (the spec's three-element case) the recent list is all of its transactions, reversed.\<close>

theorem recent_short_all_reversed:
  "length rb \<le> 5 \<Longrightarrow> recent_transactions rb = rev (map fst rb)"
  by (simp add: recent_transactions_def py_tail_slice_def rev_map)

theorem recent_short_all_reversed_witness:
  "length (running_balance sample_txns) \<le> 5 \<and>
   recent_transactions (running_balance sample_txns) = rev (map fst (running_balance sample_txns))"
proof -
  have h: "length (running_balance sample_txns) \<le> 5"
    by (simp add: running_balance_eq sample_txns_def)
  show ?thesis using h recent_short_all_reversed [OF h] by blast
qed






text \<open>Scenario of spec section 8: payments Cash 100, UPI 50 and Bank 20 give the Cash total 100, the UPI total 50 and the combined total 150; Bank is excluded.\<close>

theorem spec_scenario_payment:
  "total_cash payment_txns = 100 \<and> total_upi payment_txns = 50 \<and> total_amount payment_txns = 150"
  by (simp add: total_amount_def total_cash_def total_upi_def total_method_def sample_eval)




end
