(* ===== verification/Store.thy ===== *)
theory Store
  imports Aggregator
begin

text \<open>
  The request handlers of \<open>src/app.py\<close> and the state they change: the two tables of
  the SQLite database, the signed session cookie of one browser and its flashed
  messages.  A table is the list of its rows in rowid order, which is the order in which
  SQLite returns rows to a query without \<open>ORDER BY\<close> (\<open>user.transactions\<close>,
  \<open>filter_by(...).first()\<close>); a new row gets the rowid SQLite assigns to an
  \<open>INTEGER PRIMARY KEY\<close> without \<open>AUTOINCREMENT\<close>, one more than the largest in
  the table.  Each handler is one function from the request's form and the state to the
  response and the new state.  An exception that escapes a handler is the response
  \<open>Abort\<close> with the state unchanged: Flask answers 500, and Flask-SQLAlchemy rolls
  back what was not committed.  The library functions the handlers call through an
  interface are the fields of \<open>env\<close>: werkzeug's password hashing, \<open>float()\<close> and
  the clock's current year.
\<close>

subsection \<open>State, requests and responses\<close>

record app_state =
  users :: "user list"
  txns :: "transaction list"
  sess_user :: "nat option"
  sess_permanent :: bool
  flashes :: "(string \<times> string) list"

type_synonym form = "string \<rightharpoonup> string"

record env =
  gen_hash :: "string \<Rightarrow> string \<Rightarrow> string"
  check_hash :: "string \<Rightarrow> string \<Rightarrow> bool"
  parse_float :: "string \<Rightarrow> amount option"
  current_year :: nat

datatype response =
    Redirect string
  | Render string
  | RenderHome "user option" nat
  | RenderDashboard dashboard_page
  | RenderTransactions "transaction list"
  | RenderEdit transaction
  | Abort py_error

definition init_state :: app_state where
  "init_state = \<lparr>users = [], txns = [], sess_user = None, sess_permanent = False, flashes = []\<rparr>"

subsection \<open>Helpers\<close>

text \<open>\<open>flash(message, category)\<close> appends to the session's list.\<close>

definition add_flash :: "string \<Rightarrow> string \<Rightarrow> app_state \<Rightarrow> app_state" where
  "add_flash msg cat s = s\<lparr>flashes := flashes s @ [(cat, msg)]\<rparr>"

text \<open>\<open>request.form[k]\<close>: a missing key raises (werkzeug answers 400).\<close>

definition form_index :: "form \<Rightarrow> string \<Rightarrow> py_error + string" where
  "form_index f k = (case f k of None \<Rightarrow> Inl BadRequest | Some v \<Rightarrow> Inr v)"

definition bind_err :: "'e + 'a \<Rightarrow> ('a \<Rightarrow> 'e + 'b) \<Rightarrow> 'e + 'b" where
  "bind_err m g = (case m of Inl e \<Rightarrow> Inl e | Inr a \<Rightarrow> g a)"

text \<open>An uncaught exception: the 500 response, the state as it was.\<close>

definition or_abort :: "app_state \<Rightarrow> py_error + (response \<times> app_state) \<Rightarrow> response \<times> app_state" where
  "or_abort s r = (case r of Inl e \<Rightarrow> (Abort e, s) | Inr x \<Rightarrow> x)"

text \<open>The rowid of the next inserted row.\<close>

definition next_rowid :: "nat list \<Rightarrow> nat" where
  "next_rowid ids = Suc (foldl max 0 ids)"

text \<open>\<open>db.session.get(User, id)\<close>, \<open>User.query.filter_by(email=e).first()\<close>,
  \<open>Transaction.query.get(id)\<close> and \<open>user.transactions\<close>.\<close>

definition get_user :: "app_state \<Rightarrow> nat \<Rightarrow> user option" where
  "get_user s uid = find (\<lambda>u. u_id u = uid) (users s)"

definition user_by_email :: "app_state \<Rightarrow> string \<Rightarrow> user option" where
  "user_by_email s em = find (\<lambda>u. email u = em) (users s)"

definition get_txn :: "app_state \<Rightarrow> nat \<Rightarrow> transaction option" where
  "get_txn s tid = find (\<lambda>t. t_id t = tid) (txns s)"

definition user_transactions :: "app_state \<Rightarrow> nat \<Rightarrow> transaction list" where
  "user_transactions s uid = filter (\<lambda>t. user_id t = uid) (txns s)"

text \<open>\<open>order_by(Transaction.date.desc())\<close>: latest first; rows of equal date are
  left in rowid order (SQLite does not fix their order; this is one of the orders it
  may return).\<close>

definition order_by_date_desc :: "transaction list \<Rightarrow> transaction list" where
  "order_by_date_desc ts = rev (sort_key date (rev ts))"

text \<open>Committing an update of one row, and a delete.\<close>

definition update_txn :: "transaction \<Rightarrow> app_state \<Rightarrow> app_state" where
  "update_txn t s = s\<lparr>txns := map (\<lambda>x. if t_id x = t_id t then t else x) (txns s)\<rparr>"

definition delete_txn :: "nat \<Rightarrow> app_state \<Rightarrow> app_state" where
  "delete_txn tid s = s\<lparr>txns := filter (\<lambda>x. t_id x \<noteq> tid) (txns s)\<rparr>"

subsection \<open>Handlers\<close>

text \<open>\<open>home()\<close>, lines 24--34.\<close>

definition home :: "app_state \<Rightarrow> response \<times> app_state" where
  "home s =
     (case sess_user s of
        None \<Rightarrow> (RenderHome None 0, s)
      | Some uid \<Rightarrow>
          (case get_user s uid of
             None \<Rightarrow> (Abort AttributeError, s)
           | Some u \<Rightarrow> (RenderHome (Some u) (length (user_transactions s (u_id u))), s)))"

text \<open>\<open>register()\<close> on POST, lines 39--62; \<open>salt\<close> is the random salt
  \<open>generate_password_hash\<close> draws.\<close>

definition register_post :: "env \<Rightarrow> string \<Rightarrow> form \<Rightarrow> app_state \<Rightarrow> response \<times> app_state" where
  "register_post E salt f s = or_abort s
     (bind_err (form_index f ''name'') (\<lambda>nm.
      bind_err (form_index f ''email'') (\<lambda>em.
      bind_err (form_index f ''password'') (\<lambda>pw.
      bind_err (form_index f ''confirm_password'') (\<lambda>cpw.
        Inr (if pw \<noteq> cpw then
               (Redirect ''register'', add_flash ''Passwords do not match. Please try again.'' ''danger'' s)
             else if user_by_email s em \<noteq> None then
               (Redirect ''login'', add_flash ''Email already registered. Please login.'' ''warning'' s)
             else
               (let uid = next_rowid (map u_id (users s));
                    u = \<lparr>u_id = uid, name = Some nm, email = em, password = gen_hash E salt pw\<rparr>;
                    s' = s\<lparr>users := users s @ [u], sess_user := Some uid\<rparr>
                in (Redirect ''login'',
                    add_flash ''Registration successful! You are now logged in.'' ''success'' s'))))))))"

text \<open>\<open>login()\<close> on POST, lines 70--87.\<close>

definition login_post :: "env \<Rightarrow> form \<Rightarrow> app_state \<Rightarrow> response \<times> app_state" where
  "login_post E f s = or_abort s
     (bind_err (form_index f ''email'') (\<lambda>em.
      bind_err (form_index f ''password'') (\<lambda>pw.
        Inr (case user_by_email s em of
               Some u \<Rightarrow>
                 if check_hash E (password u) pw then
                   (let s' = add_flash ''Login successful!'' ''success''
                               (s\<lparr>sess_permanent := True, sess_user := Some (u_id u)\<rparr>)
                    in if user_transactions s (u_id u) = [] then (Redirect ''home'', s')
                       else (Redirect ''dashboard'', s'))
                 else (Render ''login.html'', add_flash ''Invalid email or password'' ''danger'' s)
             | None \<Rightarrow> (Render ''login.html'', add_flash ''Invalid email or password'' ''danger'' s)))))"

text \<open>\<open>add_transaction()\<close> on POST, lines 91--140.\<close>

definition add_transaction_post :: "env \<Rightarrow> form \<Rightarrow> app_state \<Rightarrow> response \<times> app_state" where
  "add_transaction_post E f s =
     (case sess_user s of
        None \<Rightarrow> (Redirect ''login'', add_flash ''Please log in first.'' ''warning'' s)
      | Some uid \<Rightarrow>
          (let t_type = py_lower (py_strip (py_dict_get f ''type'' ''''));
               date_str = py_strip (py_dict_get f ''date'' '''');
               cat = py_strip (py_dict_get f ''category'' '''');
               amount_str = py_strip (py_dict_get f ''amount'' ''0'');
               pm = py_strip (py_dict_get f ''payment_method'' '''');
               notes = py_strip (py_dict_get f ''notes'' '''')
           in case parse_float E amount_str of
                None \<Rightarrow> (Redirect ''add_transaction'', add_flash ''Invalid amount.'' ''danger'' s)
              | Some amt \<Rightarrow>
                  (case strptime_ymd date_str of
                     Inl _ \<Rightarrow> (Redirect ''add_transaction'', add_flash ''Invalid date format.'' ''danger'' s)
                   | Inr d \<Rightarrow>
                       if get_user s uid = None then
                         (Redirect ''login'', add_flash ''User not found.'' ''danger'' s)
                       else
                         (let t = \<lparr>t_id = next_rowid (map t_id (txns s)), type = t_type,
                                   category = cat, amount = amt, date = d, t_note = Some notes,
                                   user_id = uid, payment_method = Some pm\<rparr>
                          in (Redirect ''dashboard'',
                              add_flash ''Transaction added successfully!'' ''success''
                                (s\<lparr>txns := txns s @ [t]\<rparr>))))))"

text \<open>\<open>dashboard()\<close>, lines 145--212: the session check and the user lookup around
  the aggregation of theory \<open>Aggregator\<close>; \<open>user.transactions\<close> on \<open>None\<close>
  raises \<open>AttributeError\<close>.\<close>

definition dashboard :: "env \<Rightarrow> string option \<Rightarrow> app_state \<Rightarrow> response \<times> app_state" where
  "dashboard E fd s =
     (case sess_user s of
        None \<Rightarrow> (Redirect ''login'', s)
      | Some uid \<Rightarrow>
          (case get_user s uid of
             None \<Rightarrow> (Abort AttributeError, s)
           | Some u \<Rightarrow>
               (case dashboard_view (current_year E) fd (user_transactions s (u_id u)) of
                  Inl e \<Rightarrow> (Abort e, s)
                | Inr p \<Rightarrow> (RenderDashboard p, s))))"

text \<open>\<open>logout()\<close>, lines 214--218: only \<open>user_id\<close> leaves the session.\<close>

definition logout :: "app_state \<Rightarrow> response \<times> app_state" where
  "logout s = (Redirect ''home'', add_flash ''You have been logged out.'' ''success'' (s\<lparr>sess_user := None\<rparr>))"

text \<open>\<open>view_transactions()\<close>, lines 220--233.\<close>

definition view_transactions :: "app_state \<Rightarrow> response \<times> app_state" where
  "view_transactions s =
     (case sess_user s of
        None \<Rightarrow> (Redirect ''login'', add_flash ''Please log in first.'' ''warning'' s)
      | Some uid \<Rightarrow>
          (case get_user s uid of
             None \<Rightarrow> (Redirect ''login'', add_flash ''User not found.'' ''danger'' s)
           | Some u \<Rightarrow> (RenderTransactions (order_by_date_desc (user_transactions s (u_id u))), s)))"

text \<open>\<open>edit_transaction(id)\<close> on POST, lines 235--250: no test that the row belongs
  to the session's user; the form values are stored as they come (no \<open>strip\<close>, no
  \<open>lower\<close>); \<open>float\<close> raises after the row was changed in the ORM session but before
  the commit, so the change is rolled back.\<close>

definition edit_transaction_post :: "env \<Rightarrow> nat \<Rightarrow> form \<Rightarrow> app_state \<Rightarrow> response \<times> app_state" where
  "edit_transaction_post E tid f s =
     (case sess_user s of
        None \<Rightarrow> (Redirect ''login'', add_flash ''Please log in first.'' ''warning'' s)
      | Some uid \<Rightarrow>
          (case get_txn s tid of
             None \<Rightarrow> (Abort NotFound, s)
           | Some t \<Rightarrow> or_abort s
               (bind_err (form_index f ''type'') (\<lambda>ty.
                bind_err (form_index f ''category'') (\<lambda>cat.
                bind_err (form_index f ''note'') (\<lambda>nt.
                bind_err (form_index f ''amount'') (\<lambda>am.
                  (case parse_float E am of
                     None \<Rightarrow> Inl ValueError
                   | Some a \<Rightarrow>
                       Inr (Redirect ''view_transactions'',
                            add_flash ''Transaction updated successfully!'' ''success''
                              (update_txn (t\<lparr>type := ty, category := cat, t_note := Some nt, amount := a\<rparr>) s))))))))))"

text \<open>\<open>edit_transaction(id)\<close> on GET, lines 237--252.\<close>

definition edit_transaction_get :: "nat \<Rightarrow> app_state \<Rightarrow> response \<times> app_state" where
  "edit_transaction_get tid s =
     (case sess_user s of
        None \<Rightarrow> (Redirect ''login'', add_flash ''Please log in first.'' ''warning'' s)
      | Some uid \<Rightarrow>
          (case get_txn s tid of
             None \<Rightarrow> (Abort NotFound, s)
           | Some t \<Rightarrow> (RenderEdit t, s)))"

text \<open>\<open>delete_transaction(id)\<close>, lines 255--265: no ownership test either.\<close>

definition delete_transaction :: "nat \<Rightarrow> app_state \<Rightarrow> response \<times> app_state" where
  "delete_transaction tid s =
     (case sess_user s of
        None \<Rightarrow> (Redirect ''login'', add_flash ''Please log in first.'' ''warning'' s)
      | Some uid \<Rightarrow>
          (case get_txn s tid of
             None \<Rightarrow> (Abort NotFound, s)
           | Some t \<Rightarrow>
               (Redirect ''view_transactions'',
                add_flash ''Transaction deleted successfully!'' ''success'' (delete_txn tid s))))"

subsection \<open>Requests and the step relation\<close>

text \<open>One request of the browser, with its arguments; \<open>Expire\<close> is the session
  cookie running out after its 15 minutes (line 17).\<close>

datatype request =
    HomeReq
  | RegisterGet
  | RegisterPost string form
  | LoginGet
  | LoginPost form
  | AddGet
  | AddPost form
  | DashboardReq "string option"
  | LogoutReq
  | ViewReq
  | EditGet nat
  | EditPost nat form
  | DeleteReq nat
  | Expire

fun handle :: "env \<Rightarrow> app_state \<Rightarrow> request \<Rightarrow> response \<times> app_state" where
  "handle E s HomeReq = home s"
| "handle E s RegisterGet = (Render ''register.html'', s)"
| "handle E s (RegisterPost salt f) = register_post E salt f s"
| "handle E s LoginGet = (Render ''login.html'', s)"
| "handle E s (LoginPost f) = login_post E f s"
| "handle E s AddGet =
     (case sess_user s of
        None \<Rightarrow> (Redirect ''login'', add_flash ''Please log in first.'' ''warning'' s)
      | Some _ \<Rightarrow> (Render ''add_transaction.html'', s))"
| "handle E s (AddPost f) = add_transaction_post E f s"
| "handle E s (DashboardReq fd) = dashboard E fd s"
| "handle E s LogoutReq = logout s"
| "handle E s ViewReq = view_transactions s"
| "handle E s (EditGet tid) = edit_transaction_get tid s"
| "handle E s (EditPost tid f) = edit_transaction_post E tid f s"
| "handle E s (DeleteReq tid) = delete_transaction tid s"
| "handle E s Expire = (Redirect ''login'', s\<lparr>sess_user := None, sess_permanent := False, flashes := []\<rparr>)"

inductive reachable :: "env \<Rightarrow> app_state \<Rightarrow> bool" for E :: env where
  init: "reachable E init_state"
| step: "reachable E s \<Longrightarrow> reachable E (snd (handle E s r))"

text \<open>A sequence of requests, run from a state.\<close>

fun run :: "env \<Rightarrow> app_state \<Rightarrow> request list \<Rightarrow> app_state" where
  "run E s [] = s"
| "run E s (r # rs) = run E (snd (handle E s r)) rs"

text \<open>The two requests that can put a user into the session: a registration and a login.\<close>

fun grants_session :: "request \<Rightarrow> bool" where
  "grants_session (RegisterPost _ _) = True"
| "grants_session (LoginPost _) = True"
| "grants_session _ = False"

subsection \<open>Invariants and the hashing contract\<close>

text \<open>What the database and the session hold in every reachable state: rowids increase
  along each table (so they are unique), e-mails are unique, the session's user and every
  transaction's owner exist (the foreign key of \<open>transactions.user_id\<close>), and every
  stored date is a calendar date.\<close>

definition store_inv :: "app_state \<Rightarrow> bool" where
  "store_inv s \<longleftrightarrow>
     sorted_wrt (<) (map u_id (users s)) \<and> sorted_wrt (<) (map t_id (txns s)) \<and>
     distinct (map email (users s)) \<and>
     set_option (sess_user s) \<subseteq> u_id ` set (users s) \<and>
     user_id ` set (txns s) \<subseteq> u_id ` set (users s) \<and>
     date ` set (txns s) \<subseteq> Collect valid_datetime"

text \<open>Every stored password is the output of \<open>generate_password_hash\<close>.\<close>

definition passwords_hashed :: "env \<Rightarrow> app_state \<Rightarrow> bool" where
  "passwords_hashed E s \<longleftrightarrow> (\<forall>u\<in>set (users s). \<exists>salt pw. password u = gen_hash E salt pw)"

text \<open>The contract of werkzeug's pair: \<open>check_password_hash(generate_password_hash(p),
  q)\<close> holds exactly when \<open>q = p\<close> (whatever the salt).\<close>

definition hash_contract :: "env \<Rightarrow> bool" where
  "hash_contract E \<longleftrightarrow> (\<forall>salt p q. check_hash E (gen_hash E salt p) q \<longleftrightarrow> q = p)"

subsection \<open>A sample environment and session\<close>

text \<open>An environment that meets the hashing contract, a \<open>float()\<close> defined on a few
  strings, and the forms of the spec's first scenario: Ann registers and enters an income
  of 100 on 2024-01-05 (typed \<open>Income\<close>) and an expense of 30 on 2024-01-06.\<close>

definition demo_env :: env where
  "demo_env = \<lparr>gen_hash = (\<lambda>salt pw. ''pbkdf2:'' @ pw), check_hash = (\<lambda>h pw. h = ''pbkdf2:'' @ pw),
                parse_float = map_of [(''100'', 100), (''30'', 30), (''-5'', -5)],
                current_year = 2024\<rparr>"

definition reg_form :: form where
  "reg_form = map_of [(''name'', ''Ann''), (''email'', ''ann@example.com''), (''password'', ''pw1''),
                      (''confirm_password'', ''pw1'')]"

definition add_form :: "string \<Rightarrow> string \<Rightarrow> string \<Rightarrow> form" where
  "add_form ty am d = map_of [(''type'', ty), (''date'', d), (''category'', ''Food''), (''amount'', am),
                              (''payment_method'', ''Cash''), (''notes'', '''')]"

definition edit_form :: "string \<Rightarrow> string \<Rightarrow> form" where
  "edit_form ty am = map_of [(''type'', ty), (''category'', ''Food''), (''note'', ''''), (''amount'', am)]"

definition demo_requests :: "request list" where
  "demo_requests =
     [RegisterPost ''salt'' reg_form, AddPost (add_form ''Income'' ''100'' ''2024-01-05''),
      AddPost (add_form ''expense'' ''30'' ''2024-01-06'')]"

text \<open>A second user, Bob, who registers after Ann has logged out.\<close>

definition bob_form :: form where
  "bob_form = map_of [(''name'', ''Bob''), (''email'', ''bob@example.com''), (''password'', ''pw2''),
                      (''confirm_password'', ''pw2'')]"

subsection \<open>Lemmas\<close>

lemma foldl_max_ge: "x \<in> insert a (set xs) \<Longrightarrow> x \<le> foldl max (a::nat) xs"
proof (induction xs arbitrary: a x)
  case Nil
  then show ?case by simp
next
  case (Cons y ys)
  have top: "max a y \<le> foldl max (max a y) ys" using Cons.IH [of "max a y" "max a y"] by simp
  show ?case
  proof (cases "x \<in> set ys")
    case True
    then show ?thesis using Cons.IH [of x "max a y"] by simp
  next
    case False
    with Cons.prems have "x \<le> max a y" by auto
    then have "x \<le> foldl max (max a y) ys" using top by (rule order_trans)
    then show ?thesis by simp
  qed
qed

lemma next_rowid_gt: "x \<in> set ids \<Longrightarrow> x < next_rowid ids"
  using foldl_max_ge [of x 0 ids] by (simp add: next_rowid_def)

lemma next_rowid_notin: "next_rowid ids \<notin> set ids"
  using next_rowid_gt [of "next_rowid ids" ids] by auto

lemma sorted_wrt_snoc_next: "sorted_wrt (<) ids \<Longrightarrow> sorted_wrt (<) (ids @ [next_rowid ids])"
  by (simp add: sorted_wrt_append next_rowid_gt)

lemma get_user_None_iff: "get_user s uid = None \<longleftrightarrow> uid \<notin> u_id ` set (users s)"
  by (auto simp: get_user_def find_None_iff)

lemma user_by_email_None_iff: "user_by_email s em = None \<longleftrightarrow> em \<notin> email ` set (users s)"
  by (auto simp: user_by_email_def find_None_iff)

lemma user_by_email_Some: "user_by_email s em = Some u \<Longrightarrow> u \<in> set (users s) \<and> email u = em"
  by (auto simp: user_by_email_def dest: find_Some_iff [THEN iffD1] simp: find_Some_iff)

lemma get_txn_Some: "get_txn s tid = Some t \<Longrightarrow> t \<in> set (txns s) \<and> t_id t = tid"
  by (auto simp: get_txn_def find_Some_iff)

lemma add_flash_fields [simp]:
  "users (add_flash m c s) = users s" "txns (add_flash m c s) = txns s"
  "sess_user (add_flash m c s) = sess_user s"
  by (simp_all add: add_flash_def)

lemma store_inv_flash [simp]: "store_inv (add_flash m c s) = store_inv s"
  by (simp add: store_inv_def add_flash_def)

lemma passwords_hashed_flash [simp]: "passwords_hashed E (add_flash m c s) = passwords_hashed E s"
  by (simp add: passwords_hashed_def add_flash_def)

lemma or_abort_cases:
  "P s \<Longrightarrow> (\<And>x. r = Inr x \<Longrightarrow> P (snd x)) \<Longrightarrow> P (snd (or_abort s r))"
  by (cases r) (auto simp: or_abort_def)

lemma bind_err_Inr: "bind_err m g = Inr x \<Longrightarrow> \<exists>a. m = Inr a \<and> g a = Inr x"
  by (cases m) (auto simp: bind_err_def)

lemma form_index_Inr: "form_index f k = Inr v \<longleftrightarrow> f k = Some v"
  by (auto simp: form_index_def split: option.splits)


lemma store_inv_add_user:
  "store_inv s \<Longrightarrow> em \<notin> email ` set (users s) \<Longrightarrow>
     store_inv (s\<lparr>users := users s @ [\<lparr>u_id = next_rowid (map u_id (users s)), name = n, email = em,
                     password = p\<rparr>], sess_user := Some (next_rowid (map u_id (users s)))\<rparr>)"
  using sorted_wrt_snoc_next [of "map u_id (users s)"] by (auto simp: store_inv_def)

lemma store_inv_add_txn:
  "store_inv s \<Longrightarrow> user_id t \<in> u_id ` set (users s) \<Longrightarrow> valid_datetime (date t) \<Longrightarrow>
     t_id t = next_rowid (map t_id (txns s)) \<Longrightarrow> store_inv (s\<lparr>txns := txns s @ [t]\<rparr>)"
  using sorted_wrt_snoc_next [of "map t_id (txns s)"] by (auto simp: store_inv_def)

lemma map_update_same_key:
  "t_id t' = t_id t \<Longrightarrow> map (t_id \<circ> (\<lambda>x. if t_id x = t_id t then t' else x)) xs = map t_id xs"
  by (induction xs) auto

lemma store_inv_update_txn:
  "store_inv s \<Longrightarrow> t \<in> set (txns s) \<Longrightarrow> t_id t' = t_id t \<Longrightarrow> user_id t' = user_id t \<Longrightarrow>
     date t' = date t \<Longrightarrow> store_inv (update_txn t' s)"
  unfolding store_inv_def update_txn_def
  by (auto simp: map_update_same_key [of t' t] split: if_splits)

lemma store_inv_delete_txn: "store_inv s \<Longrightarrow> store_inv (delete_txn tid s)"
  by (auto simp: store_inv_def delete_txn_def sorted_wrt_filter sorted_wrt_map filter_map [symmetric])

lemma store_inv_session:
  "store_inv s \<Longrightarrow> set_option v \<subseteq> u_id ` set (users s) \<Longrightarrow>
     store_inv (s\<lparr>sess_permanent := b, sess_user := v\<rparr>)"
  by (simp add: store_inv_def)

lemma store_inv_cong:
  "store_inv s \<Longrightarrow> users s' = users s \<Longrightarrow> txns s' = txns s \<Longrightarrow>
     set_option (sess_user s') \<subseteq> set_option (sess_user s) \<Longrightarrow> store_inv s'"
  by (auto simp: store_inv_def)

lemma register_post_inv: "store_inv s \<Longrightarrow> store_inv (snd (register_post E salt f s))"
  unfolding register_post_def
  by (rule or_abort_cases)
    (auto simp: bind_err_def form_index_def user_by_email_None_iff Let_def
      intro!: store_inv_add_user split: option.splits sum.splits if_splits)

lemma add_transaction_post_inv: "store_inv s \<Longrightarrow> store_inv (snd (add_transaction_post E f s))"
  unfolding add_transaction_post_def
  by (auto simp: Let_def get_user_None_iff valid_datetime_def
      dest!: strptime_ymd_Inr intro!: store_inv_add_txn split: option.splits sum.splits)

lemma edit_transaction_post_inv: "store_inv s \<Longrightarrow> store_inv (snd (edit_transaction_post E tid f s))"
  unfolding edit_transaction_post_def
  by (auto simp: bind_err_def form_index_def or_abort_def dest!: get_txn_Some
      intro!: store_inv_update_txn split: option.splits sum.splits)

lemma login_post_inv:
  assumes inv: "store_inv s"
  shows "store_inv (snd (login_post E f s))"
proof -
  have ok: "store_inv (s\<lparr>sess_permanent := True, sess_user := Some (u_id u)\<rparr>)"
    if "u \<in> set (users s)" for u
    using store_inv_session [OF inv, of "Some (u_id u)" True] that by simp
  show ?thesis
    unfolding login_post_def
    by (rule or_abort_cases [where P = store_inv, OF inv])
      (auto simp: bind_err_def form_index_def Let_def inv ok
        dest!: user_by_email_Some split: option.splits sum.splits if_splits)
qed

lemma handle_inv:
  assumes inv: "store_inv s"
  shows "store_inv (snd (handle E s r))"
proof (cases r)
  case (RegisterPost salt f)
  then show ?thesis using register_post_inv [OF inv] by simp
next
  case (LoginPost f)
  then show ?thesis using login_post_inv [OF inv] by simp
next
  case (AddPost f)
  then show ?thesis using add_transaction_post_inv [OF inv] by simp
next
  case (EditPost tid f)
  then show ?thesis using edit_transaction_post_inv [OF inv] by simp
qed (auto simp: home_def dashboard_def logout_def view_transactions_def edit_transaction_get_def
       delete_transaction_def store_inv_delete_txn [OF inv] inv
     intro: store_inv_cong [OF inv] split: option.splits sum.splits)

lemma reachable_store_inv: "reachable E s \<Longrightarrow> store_inv s"
proof (induction rule: reachable.induct)
  case init
  show ?case by (simp add: store_inv_def init_state_def)
next
  case (step s r)
  from step.IH show ?case by (rule handle_inv)
qed

lemma or_abort_Inl [simp]: "or_abort s (Inl e) = (Abort e, s)"
  by (simp add: or_abort_def)

lemma users_handle_same:
  "(\<And>salt f. r \<noteq> RegisterPost salt f) \<Longrightarrow> users (snd (handle E s r)) = users s"
  by (cases r) (auto simp: home_def login_post_def add_transaction_post_def dashboard_def logout_def
      view_transactions_def edit_transaction_get_def edit_transaction_post_def delete_transaction_def
      update_txn_def delete_txn_def or_abort_def bind_err_def Let_def
      split: option.splits sum.splits if_splits)

lemma users_register_post:
  "users (snd (register_post E salt f s)) = users s \<or>
   (\<exists>u. users (snd (register_post E salt f s)) = users s @ [u] \<and>
        (\<exists>pw. password u = gen_hash E salt pw))"
  unfolding register_post_def
  by (auto simp: or_abort_def bind_err_def Let_def split: sum.splits)

lemma reachable_passwords_hashed: "reachable E s \<Longrightarrow> passwords_hashed E s"
proof (induction rule: reachable.induct)
  case init
  show ?case by (simp add: passwords_hashed_def init_state_def)
next
  case (step s r)
  show ?case
  proof (cases "\<exists>salt f. r = RegisterPost salt f")
    case True
    then obtain salt f where r: "r = RegisterPost salt f" by blast
    from users_register_post [of E salt f s] step.IH show ?thesis
      by (auto simp: r passwords_hashed_def) blast
  next
    case False
    then have "users (snd (handle E s r)) = users s" by (intro users_handle_same) blast
    with step.IH show ?thesis by (simp add: passwords_hashed_def)
  qed
qed

lemma login_post_session:
  "sess_user (snd (login_post E f s)) \<noteq> sess_user s \<Longrightarrow>
   \<exists>u em pw. f ''email'' = Some em \<and> f ''password'' = Some pw \<and> user_by_email s em = Some u \<and>
     check_hash E (password u) pw \<and> sess_user (snd (login_post E f s)) = Some (u_id u)"
  unfolding login_post_def
  by (auto simp: or_abort_def bind_err_def form_index_def Let_def add_flash_def
      split: option.splits sum.splits if_splits)

lemma reachable_run: "reachable E s \<Longrightarrow> reachable E (run E s rs)"
  by (induction rs arbitrary: s) (simp_all add: reachable.step)

lemma users_handle_append: "\<exists>us. users (snd (handle E s r)) = users s @ us"
proof (cases "\<exists>salt f. r = RegisterPost salt f")
  case True
  then obtain salt f where "r = RegisterPost salt f" by blast
  then show ?thesis using users_register_post [of E salt f s] by auto
next
  case False
  then have "users (snd (handle E s r)) = users s" by (intro users_handle_same) blast
  then show ?thesis by simp
qed

lemma strptime_ymd_Inl: "strptime_ymd str = Inl e \<Longrightarrow> e = ValueError"
  by (auto simp: strptime_ymd_def split: list.splits prod.splits if_splits)

lemma sum_matching_Inl: "sum_matching P fd acc ts = Inl e \<Longrightarrow> e = ValueError"
  by (induction P fd acc ts rule: sum_matching.induct)
    (auto simp: date_filter_ok_def dest: strptime_ymd_Inl split: if_splits sum.splits option.splits)

lemma dashboard_view_Inl: "dashboard_view cy fd ts = Inl e \<Longrightarrow> e = ValueError"
  by (auto simp: dashboard_view_def today_income_def today_expense_def Let_def
      dest: sum_matching_Inl split: sum.splits prod.splits)

lemma get_user_Some: "get_user s uid = Some u \<Longrightarrow> u \<in> set (users s) \<and> u_id u = uid"
  by (auto simp: get_user_def find_Some_iff)

lemma get_txn_update:
  "get_txn s tid = Some t \<Longrightarrow> t_id t' = tid \<Longrightarrow> get_txn (update_txn t' s) tid = Some t'"
  by (auto simp: get_txn_def update_txn_def find_Some_iff nth_image [symmetric] in_set_conv_nth
      dest: get_txn_Some)

lemmas demo_eval = demo_requests_def demo_env_def reg_form_def add_form_def edit_form_def
  init_state_def add_flash_def user_by_email_def get_user_def get_txn_def next_rowid_def
  py_strip_def is_py_space_def py_dict_get_def py_lower_def lower_char_def strptime_eval
  register_post_def add_transaction_post_def edit_transaction_post_def update_txn_def
  bind_err_def form_index_def or_abort_def

lemma demo_run:
  "run demo_env init_state demo_requests =
     \<lparr>users = [\<lparr>u_id = 1, name = Some ''Ann'', email = ''ann@example.com'', password = ''pbkdf2:pw1''\<rparr>],
      txns = [\<lparr>t_id = 1, type = ''income'', category = ''Food'', amount = 100,
               date = DateTime 2024 1 5 0 0 0 0, t_note = Some [], user_id = 1,
               payment_method = Some ''Cash''\<rparr>,
              \<lparr>t_id = 2, type = ''expense'', category = ''Food'', amount = 30,
               date = DateTime 2024 1 6 0 0 0 0, t_note = Some [], user_id = 1,
               payment_method = Some ''Cash''\<rparr>],
      sess_user = Some 1, sess_permanent = False,
      flashes = [(''success'', ''Registration successful! You are now logged in.''),
                 (''success'', ''Transaction added successfully!''),
                 (''success'', ''Transaction added successfully!'')]\<rparr>"
  by (simp add: demo_eval)

lemma demo_reachable: "reachable demo_env (run demo_env init_state demo_requests)"
  by (rule reachable_run [OF reachable.init])

lemma run_append: "run E s (xs @ ys) = run E (run E s xs) ys"
  by (induction xs arbitrary: s) simp_all

lemma handle_logged_out:
  "sess_user s = None \<Longrightarrow> \<not> grants_session r \<Longrightarrow>
     sess_user (snd (handle E s r)) = None \<and> txns (snd (handle E s r)) = txns s"
  by (cases r) (simp_all add: home_def add_transaction_post_def dashboard_def logout_def
      view_transactions_def edit_transaction_get_def edit_transaction_post_def delete_transaction_def)

lemma demo_run_logout:
  "run demo_env init_state (demo_requests @ [LogoutReq]) =
     (run demo_env init_state demo_requests)\<lparr>sess_user := None,
        flashes := flashes (run demo_env init_state demo_requests) @ [(''success'', ''You have been logged out.'')]\<rparr>"
  by (simp add: run_append logout_def add_flash_def)

lemma demo_run_bob:
  "run demo_env init_state (demo_requests @ [LogoutReq, RegisterPost ''salt'' bob_form]) =
     \<lparr>users = [\<lparr>u_id = 1, name = Some ''Ann'', email = ''ann@example.com'', password = ''pbkdf2:pw1''\<rparr>,
               \<lparr>u_id = 2, name = Some ''Bob'', email = ''bob@example.com'', password = ''pbkdf2:pw2''\<rparr>],
      txns = [\<lparr>t_id = 1, type = ''income'', category = ''Food'', amount = 100,
               date = DateTime 2024 1 5 0 0 0 0, t_note = Some [], user_id = 1,
               payment_method = Some ''Cash''\<rparr>,
              \<lparr>t_id = 2, type = ''expense'', category = ''Food'', amount = 30,
               date = DateTime 2024 1 6 0 0 0 0, t_note = Some [], user_id = 1,
               payment_method = Some ''Cash''\<rparr>],
      sess_user = Some 2, sess_permanent = False,
      flashes = [(''success'', ''Registration successful! You are now logged in.''),
                 (''success'', ''Transaction added successfully!''),
                 (''success'', ''Transaction added successfully!''),
                 (''success'', ''You have been logged out.''),
                 (''success'', ''Registration successful! You are now logged in.'')]\<rparr>"
  unfolding run_append
  by (simp add: demo_run logout_def demo_eval bob_form_def)

lemma demo_hash_contract: "hash_contract demo_env"
  by (auto simp: hash_contract_def demo_env_def)

end
