(* ===== verification/Auth.thy ===== *)
theory Auth
  imports Store
begin

text \<open>
  The claims on the session-changing handlers of \<open>src/app.py\<close>: \<open>register()\<close>
  (every branch of lines 39--62), \<open>login()\<close> (lines 70--87, with werkzeug's hashing
  through its contract \<open>hash_contract\<close>), \<open>logout()\<close> (lines 214--218), and that the
  users table is append-only.  The definitions and the invariant lemmas are in theory
  \<open>Store\<close>.
\<close>

subsection \<open>Registration\<close>

text \<open>C24: register() with a password that differs from its confirmation redirects back to the registration page with a danger flash and changes nothing else, even when the e-mail is already registered (the password test comes first).\<close>

theorem register_mismatch_no_user:
  assumes "f ''name'' = Some nm" "f ''email'' = Some em" "f ''password'' = Some pw"
    "f ''confirm_password'' = Some cpw" "pw \<noteq> cpw"
  shows "register_post E salt f s =
    (Redirect ''register'', add_flash ''Passwords do not match. Please try again.'' ''danger'' s)"
  using assms by (simp add: register_post_def bind_err_def form_index_def or_abort_def)

theorem register_mismatch_no_user_witness:
  "register_post demo_env ''salt'' (reg_form(''confirm_password'' \<mapsto> ''pw2'')) init_state =
    (Redirect ''register'', add_flash ''Passwords do not match. Please try again.'' ''danger'' init_state)"
  using register_mismatch_no_user [of "reg_form(''confirm_password'' \<mapsto> ''pw2'')" "''Ann''"
      "''ann@example.com''" "''pw1''" "''pw2''"]
  by (simp add: reg_form_def)



text \<open>C35: register() with matching passwords and an e-mail already registered creates no user, leaves the session as it was, and redirects to the login page with a warning.\<close>

theorem register_duplicate_email:
  assumes "f ''name'' = Some nm" "f ''email'' = Some em" "f ''password'' = Some pw"
    "f ''confirm_password'' = Some pw" "em \<in> email ` set (users s)"
  shows "register_post E salt f s =
    (Redirect ''login'', add_flash ''Email already registered. Please login.'' ''warning'' s)"
proof -
  have "user_by_email s em \<noteq> None" using assms(5) by (simp add: user_by_email_None_iff)
  with assms(1-4) show ?thesis by (simp add: register_post_def bind_err_def form_index_def or_abort_def)
qed

theorem register_duplicate_email_witness:
  "register_post demo_env ''salt2'' reg_form (run demo_env init_state demo_requests) =
    (Redirect ''login'', add_flash ''Email already registered. Please login.'' ''warning'' (run demo_env init_state demo_requests))"
  by (rule register_duplicate_email) (simp_all add: reg_form_def demo_run)

subsection \<open>Login and logout\<close>

text \<open>C25: When the hashing functions meet their contract, a login in a reachable state that changes the session's user puts there a stored user whose e-mail was submitted and whose stored hash was generated from exactly the submitted password.\<close>

theorem login_requires_password:
  assumes hc: "hash_contract E" and r: "reachable E s"
    and new: "sess_user (snd (login_post E f s)) \<noteq> sess_user s"
  shows "\<exists>u salt pw. u \<in> set (users s) \<and> sess_user (snd (login_post E f s)) = Some (u_id u) \<and>
    f ''email'' = Some (email u) \<and> f ''password'' = Some pw \<and> password u = gen_hash E salt pw"
proof -
  obtain u em pw where u: "f ''email'' = Some em" "f ''password'' = Some pw"
      "user_by_email s em = Some u" "check_hash E (password u) pw"
      "sess_user (snd (login_post E f s)) = Some (u_id u)"
    using login_post_session [OF new] by blast
  have mem: "u \<in> set (users s)" "email u = em" using user_by_email_Some [OF u(3)] by auto
  then obtain salt p where p: "password u = gen_hash E salt p"
    using reachable_passwords_hashed [OF r] by (auto simp: passwords_hashed_def)
  with u(4) hc have "pw = p" by (simp add: hash_contract_def)
  with mem u p show ?thesis by blast
qed

theorem login_requires_password_witness:
  "hash_contract demo_env \<and> reachable demo_env (run demo_env init_state (demo_requests @ [LogoutReq])) \<and>
   sess_user (snd (login_post demo_env reg_form (run demo_env init_state (demo_requests @ [LogoutReq])))) \<noteq>
     sess_user (run demo_env init_state (demo_requests @ [LogoutReq])) \<and>
   (\<exists>u salt pw. u \<in> set (users (run demo_env init_state (demo_requests @ [LogoutReq]))) \<and>
      sess_user (snd (login_post demo_env reg_form (run demo_env init_state (demo_requests @ [LogoutReq])))) = Some (u_id u) \<and>
      reg_form ''email'' = Some (email u) \<and> reg_form ''password'' = Some pw \<and> password u = gen_hash demo_env salt pw)"
proof -
  have r: "reachable demo_env (run demo_env init_state (demo_requests @ [LogoutReq]))"
    by (rule reachable_run [OF reachable.init])
  have n: "sess_user (snd (login_post demo_env reg_form (run demo_env init_state (demo_requests @ [LogoutReq])))) \<noteq>
     sess_user (run demo_env init_state (demo_requests @ [LogoutReq]))"
    by (simp add: demo_run_logout demo_run login_post_def demo_eval user_transactions_def logout_def)
  show ?thesis using login_requires_password [OF demo_hash_contract r n] demo_hash_contract r n by blast
qed



text \<open>C33: After logout(), no sequence of requests without a registration or a login changes the transactions or puts a user into the session.\<close>

theorem logout_requires_login_again:
  assumes "list_all (\<lambda>r. \<not> grants_session r) rs"
  shows "sess_user (run E (snd (logout s)) rs) = None \<and> txns (run E (snd (logout s)) rs) = txns s"
proof -
  have "sess_user s' = None \<Longrightarrow> sess_user (run E s' rs) = None \<and> txns (run E s' rs) = txns s'" for s'
    using assms
  proof (induction rs arbitrary: s')
    case (Cons r rs)
    then show ?case using handle_logged_out [of s' r E] by simp
  qed simp
  then show ?thesis by (simp add: logout_def)
qed

theorem logout_requires_login_again_witness:
  "list_all (\<lambda>r. \<not> grants_session r)
     [AddPost (add_form ''income'' ''100'' ''2024-01-07''), EditPost 1 (edit_form ''expense'' ''30''), DeleteReq 2] \<and>
   txns (run demo_env (snd (logout (run demo_env init_state demo_requests)))
     [AddPost (add_form ''income'' ''100'' ''2024-01-07''), EditPost 1 (edit_form ''expense'' ''30''), DeleteReq 2]) =
   txns (run demo_env init_state demo_requests)"
  using logout_requires_login_again [of "[AddPost (add_form ''income'' ''100'' ''2024-01-07''),
      EditPost 1 (edit_form ''expense'' ''30''), DeleteReq 2]" demo_env "run demo_env init_state demo_requests"]
  by simp

text \<open>C39: The users table only grows: after any sequence of requests the old users are a prefix of the new table.\<close>

theorem users_append_only: "\<exists>us. users (run E s rs) = users s @ us"
proof (induction rs arbitrary: s)
  case Nil
  then show ?case by simp
next
  case (Cons r rs)
  obtain us where "users (snd (handle E s r)) = users s @ us" using users_handle_append by blast
  moreover obtain vs where "users (run E (snd (handle E s r)) rs) = users (snd (handle E s r)) @ vs"
    using Cons.IH by blast
  ultimately show ?case by simp
qed

end
