(* ===== verification/Crud.thy ===== *)
theory Crud
  imports Store
begin

text \<open>
  The claims on the transaction handlers of \<open>src/app.py\<close>: \<open>add_transaction()\<close>
  (lines 89--143), \<open>view_transactions()\<close> (lines 220--233),
  \<open>edit_transaction()\<close> (lines 235--252) and \<open>delete_transaction()\<close> (lines
  255--265).  Next to them an abstract view of the transaction table as a finite map from
  id to row (\<open>txn_table\<close>), the specification of a keyed table as in the spec's data
  model, and the refinement lemma that the handlers change the table the way the map
  operations do.
\<close>

subsection \<open>The table as a map\<close>

text \<open>The rows of \<open>transactions\<close> keyed by their primary key; \<open>map_of\<close> returns the
  first row of a key, as \<open>Transaction.query.get\<close> does.\<close>

definition txn_table :: "transaction list \<Rightarrow> nat \<rightharpoonup> transaction" where
  "txn_table ts = map_of (map (\<lambda>t. (t_id t, t)) ts)"

subsection \<open>Lemmas\<close>

lemma txn_table_find: "find (\<lambda>t. t_id t = tid) ts = txn_table ts tid"
  by (induction ts) (simp_all add: txn_table_def)

lemma txn_table_filter: "txn_table (filter (\<lambda>x. t_id x \<noteq> tid) ts) = (txn_table ts)(tid := None)"
  by (induction ts) (auto simp: txn_table_def fun_eq_iff)

lemma txn_table_snoc:
  "t_id t \<notin> dom (txn_table ts) \<Longrightarrow> txn_table (ts @ [t]) = (txn_table ts)(t_id t \<mapsto> t)"
  by (auto simp: txn_table_def map_add_def fun_eq_iff split: option.splits)

lemma dom_txn_table: "dom (txn_table ts) = t_id ` set ts"
  by (simp add: txn_table_def dom_map_of_conv_image_fst image_image)

lemma txn_table_Cons [simp]: "txn_table (t # ts) = (txn_table ts)(t_id t \<mapsto> t)"
  by (simp add: txn_table_def)

lemma txn_table_update_at:
  assumes "t_id t' = tid"
  shows "txn_table (map (\<lambda>x. if t_id x = tid then t' else x) ts) k =
    (if k = tid \<and> tid \<in> t_id ` set ts then Some t' else txn_table ts k)"
proof (induction ts)
  case Nil
  show ?case by (simp add: txn_table_def)
next
  case (Cons x xs)
  then show ?case using assms by (cases "t_id x = tid") auto
qed

lemma txn_table_update:
  "tid \<in> dom (txn_table ts) \<Longrightarrow> t_id t' = tid \<Longrightarrow>
     txn_table (map (\<lambda>x. if t_id x = tid then t' else x) ts) = (txn_table ts)(tid \<mapsto> t')"
  by (rule ext) (simp add: txn_table_update_at dom_txn_table)

lemma filter_t_id_remove1:
  "distinct (map t_id xs) \<Longrightarrow> t \<in> set xs \<Longrightarrow> filter (\<lambda>x. t_id x \<noteq> t_id t) xs = remove1 t xs"
proof (induction xs)
  case Nil
  then show ?case by simp
next
  case (Cons x xs)
  show ?case
  proof (cases "x = t")
    case True
    with Cons.prems have "\<forall>y\<in>set xs. t_id y \<noteq> t_id t" by (auto simp: image_iff)
    with True show ?thesis by (simp add: filter_True)
  next
    case False
    with Cons.prems have "t \<in> set xs" "t_id x \<noteq> t_id t" by (auto simp: image_iff)
    with Cons False show ?thesis by simp
  qed
qed

lemma add_transaction_post_ok:
  assumes "sess_user s = Some uid" "get_user s uid \<noteq> None"
    "parse_float E (py_strip (py_dict_get f ''amount'' ''0'')) = Some a"
    "strptime_ymd (py_strip (py_dict_get f ''date'' '''')) = Inr d"
  shows "add_transaction_post E f s =
    (Redirect ''dashboard'', add_flash ''Transaction added successfully!'' ''success''
       (s\<lparr>txns := txns s @ [\<lparr>t_id = next_rowid (map t_id (txns s)),
           type = py_lower (py_strip (py_dict_get f ''type'' '''')),
           category = py_strip (py_dict_get f ''category'' ''''), amount = a, date = d,
           t_note = Some (py_strip (py_dict_get f ''notes'' '''')), user_id = uid,
           payment_method = Some (py_strip (py_dict_get f ''payment_method'' ''''))\<rparr>]\<rparr>))"
  using assms by (simp add: add_transaction_post_def Let_def)

subsection \<open>Adding a transaction\<close>

text \<open>C26: add_transaction() by a logged-in, stored user with an amount float() accepts and a date strptime accepts appends one transaction, with a fresh id, the session's user as owner, the parsed amount and date and the stripped, lower-cased type, flashes success and redirects to the dashboard.\<close>

theorem add_transaction_stores:
  assumes "sess_user s = Some uid" "get_user s uid \<noteq> None"
    "parse_float E (py_strip (py_dict_get f ''amount'' ''0'')) = Some a"
    "strptime_ymd (py_strip (py_dict_get f ''date'' '''')) = Inr d"
  shows "\<exists>t. add_transaction_post E f s =
      (Redirect ''dashboard'', add_flash ''Transaction added successfully!'' ''success'' (s\<lparr>txns := txns s @ [t]\<rparr>)) \<and>
    t_id t \<notin> t_id ` set (txns s) \<and> user_id t = uid \<and> amount t = a \<and> date t = d \<and>
    valid_datetime (date t) \<and> type t = py_lower (py_strip (py_dict_get f ''type'' '''')) \<and>
    py_lower (type t) = type t"
proof -
  have v: "valid_datetime d" using strptime_ymd_Inr [OF assms(4)] by (auto simp: valid_datetime_def)
  have fresh: "next_rowid (map t_id (txns s)) \<notin> t_id ` set (txns s)"
    using next_rowid_notin [of "map t_id (txns s)"] by simp
  define t where "t = \<lparr>t_id = next_rowid (map t_id (txns s)),
      type = py_lower (py_strip (py_dict_get f ''type'' '''')),
      category = py_strip (py_dict_get f ''category'' ''''), amount = a, date = d,
      t_note = Some (py_strip (py_dict_get f ''notes'' '''')), user_id = uid,
      payment_method = Some (py_strip (py_dict_get f ''payment_method'' ''''))\<rparr>"
  show ?thesis
    using add_transaction_post_ok [OF assms] v fresh by (intro exI [of _ t]) (simp add: t_def py_lower_idem)
qed

theorem add_transaction_stores_witness:
  "sess_user (run demo_env init_state demo_requests) = Some 1 \<and>
   get_user (run demo_env init_state demo_requests) 1 \<noteq> None \<and>
   parse_float demo_env (py_strip (py_dict_get (add_form '' Income '' ''100'' ''2024-01-07'') ''amount'' ''0'')) = Some 100 \<and>
   strptime_ymd (py_strip (py_dict_get (add_form '' Income '' ''100'' ''2024-01-07'') ''date'' '''')) =
     Inr (DateTime 2024 1 7 0 0 0 0) \<and>
   (\<exists>t. add_transaction_post demo_env (add_form '' Income '' ''100'' ''2024-01-07'') (run demo_env init_state demo_requests) =
      (Redirect ''dashboard'', add_flash ''Transaction added successfully!'' ''success''
         ((run demo_env init_state demo_requests)\<lparr>txns := txns (run demo_env init_state demo_requests) @ [t]\<rparr>)) \<and>
    t_id t \<notin> t_id ` set (txns (run demo_env init_state demo_requests)) \<and> user_id t = 1 \<and> amount t = 100 \<and>
    date t = DateTime 2024 1 7 0 0 0 0 \<and> valid_datetime (date t) \<and>
    type t = py_lower (py_strip (py_dict_get (add_form '' Income '' ''100'' ''2024-01-07'') ''type'' '''')) \<and>
    py_lower (type t) = type t)"
proof -
  have h: "sess_user (run demo_env init_state demo_requests) = Some 1"
    "get_user (run demo_env init_state demo_requests) 1 \<noteq> None"
    "parse_float demo_env (py_strip (py_dict_get (add_form '' Income '' ''100'' ''2024-01-07'') ''amount'' ''0'')) = Some 100"
    "strptime_ymd (py_strip (py_dict_get (add_form '' Income '' ''100'' ''2024-01-07'') ''date'' '''')) =
       Inr (DateTime 2024 1 7 0 0 0 0)"
    by (simp_all add: demo_run demo_eval)
  show ?thesis using add_transaction_stores [OF h] h by blast
qed

text \<open>C27: add_transaction() stores nothing unless the session holds a stored user, the amount parses and the date parses.\<close>

theorem add_transaction_guards:
  assumes "txns (snd (add_transaction_post E f s)) \<noteq> txns s"
  shows "\<exists>uid a d. sess_user s = Some uid \<and> get_user s uid \<noteq> None \<and>
    parse_float E (py_strip (py_dict_get f ''amount'' ''0'')) = Some a \<and>
    strptime_ymd (py_strip (py_dict_get f ''date'' '''')) = Inr d"
  using assms
  by (auto simp: add_transaction_post_def Let_def split: option.splits sum.splits if_splits)

theorem add_transaction_guards_witness:
  "txns (snd (add_transaction_post demo_env (add_form ''income'' ''30'' ''2024-01-07'') (run demo_env init_state demo_requests))) \<noteq>
     txns (run demo_env init_state demo_requests) \<and>
   (\<exists>uid a d. sess_user (run demo_env init_state demo_requests) = Some uid \<and>
     get_user (run demo_env init_state demo_requests) uid \<noteq> None \<and>
     parse_float demo_env (py_strip (py_dict_get (add_form ''income'' ''30'' ''2024-01-07'') ''amount'' ''0'')) = Some a \<and>
     strptime_ymd (py_strip (py_dict_get (add_form ''income'' ''30'' ''2024-01-07'') ''date'' '''')) = Inr d)"
proof -
  have h: "txns (snd (add_transaction_post demo_env (add_form ''income'' ''30'' ''2024-01-07'') (run demo_env init_state demo_requests))) \<noteq>
     txns (run demo_env init_state demo_requests)"
    by (simp add: demo_run demo_eval)
  show ?thesis using add_transaction_guards [OF h] h by blast
qed

subsection \<open>Editing and deleting\<close>

text \<open>C29: edit_transaction() on POST rewrites the type, category, note and amount of the requested transaction for any logged-in user, whoever owns it.\<close>

theorem edit_no_ownership_check:
  assumes "sess_user s = Some uid" "get_txn s tid = Some t"
    "f ''type'' = Some ty" "f ''category'' = Some c" "f ''note'' = Some n" "f ''amount'' = Some am"
    "parse_float E am = Some a"
  shows "edit_transaction_post E tid f s =
      (Redirect ''view_transactions'', add_flash ''Transaction updated successfully!'' ''success''
         (update_txn (t\<lparr>type := ty, category := c, t_note := Some n, amount := a\<rparr>) s)) \<and>
    get_txn (snd (edit_transaction_post E tid f s)) tid =
      Some (t\<lparr>type := ty, category := c, t_note := Some n, amount := a\<rparr>)"
proof -
  have "t_id t = tid" using get_txn_Some [OF assms(2)] by simp
  then have "get_txn (update_txn (t\<lparr>type := ty, category := c, t_note := Some n, amount := a\<rparr>) s) tid =
      Some (t\<lparr>type := ty, category := c, t_note := Some n, amount := a\<rparr>)"
    by (intro get_txn_update [OF assms(2)]) simp
  with assms show ?thesis
    by (simp add: edit_transaction_post_def bind_err_def form_index_def or_abort_def get_txn_def)
qed

theorem edit_no_ownership_check_witness:
  "sess_user (run demo_env init_state (demo_requests @ [LogoutReq, RegisterPost ''salt'' bob_form])) = Some 2 \<and>
   user_id (the (get_txn (run demo_env init_state (demo_requests @ [LogoutReq, RegisterPost ''salt'' bob_form])) 1)) = 1 \<and>
   get_txn (snd (edit_transaction_post demo_env 1 (edit_form ''expense'' ''30'')
       (run demo_env init_state (demo_requests @ [LogoutReq, RegisterPost ''salt'' bob_form])))) 1 =
     Some ((the (get_txn (run demo_env init_state (demo_requests @ [LogoutReq, RegisterPost ''salt'' bob_form])) 1))
       \<lparr>type := ''expense'', category := ''Food'', t_note := Some '''', amount := 30\<rparr>)"
proof -
  have h: "sess_user (run demo_env init_state (demo_requests @ [LogoutReq, RegisterPost ''salt'' bob_form])) = Some 2"
    "get_txn (run demo_env init_state (demo_requests @ [LogoutReq, RegisterPost ''salt'' bob_form])) 1 =
       Some (the (get_txn (run demo_env init_state (demo_requests @ [LogoutReq, RegisterPost ''salt'' bob_form])) 1))"
    "edit_form ''expense'' ''30'' ''type'' = Some ''expense''" "edit_form ''expense'' ''30'' ''category'' = Some ''Food''"
    "edit_form ''expense'' ''30'' ''note'' = Some ''''" "edit_form ''expense'' ''30'' ''amount'' = Some ''30''"
    "parse_float demo_env ''30'' = Some 30"
    unfolding demo_run_bob by (simp_all add: demo_eval)
  have o: "user_id (the (get_txn (run demo_env init_state (demo_requests @ [LogoutReq, RegisterPost ''salt'' bob_form])) 1)) = 1"
    by (simp add: demo_run_bob get_txn_def)
  show ?thesis using edit_no_ownership_check [OF h] h(1) o by blast
qed

text \<open>C30: edit_transaction() on POST with an amount float() rejects raises ValueError (HTTP 500) and leaves the database and the session unchanged; there is no flash and no redirect.\<close>

theorem edit_invalid_amount_aborts:
  assumes "sess_user s = Some uid" "get_txn s tid = Some t"
    "f ''type'' = Some ty" "f ''category'' = Some c" "f ''note'' = Some n" "f ''amount'' = Some am"
    "parse_float E am = None"
  shows "edit_transaction_post E tid f s = (Abort ValueError, s)"
  using assms by (simp add: edit_transaction_post_def bind_err_def form_index_def or_abort_def)

theorem edit_invalid_amount_aborts_witness:
  "edit_transaction_post demo_env 1 (edit_form ''income'' ''1,5'') (run demo_env init_state demo_requests) =
     (Abort ValueError, run demo_env init_state demo_requests)"
proof -
  have h: "sess_user (run demo_env init_state demo_requests) = Some 1"
    "get_txn (run demo_env init_state demo_requests) 1 = Some (the (get_txn (run demo_env init_state demo_requests) 1))"
    "edit_form ''income'' ''1,5'' ''type'' = Some ''income''" "edit_form ''income'' ''1,5'' ''category'' = Some ''Food''"
    "edit_form ''income'' ''1,5'' ''note'' = Some ''''" "edit_form ''income'' ''1,5'' ''amount'' = Some ''1,5''"
    "parse_float demo_env ''1,5'' = None"
    unfolding demo_run by (simp_all add: demo_eval)
  show ?thesis by (rule edit_invalid_amount_aborts [OF h])
qed


text \<open>C32: In a reachable state, delete_transaction() by any logged-in user removes exactly the requested row and keeps the others in order.\<close>

theorem delete_removes_only_target:
  assumes "reachable E s" "sess_user s = Some uid" "get_txn s tid = Some t"
  shows "delete_transaction tid s =
    (Redirect ''view_transactions'', add_flash ''Transaction deleted successfully!'' ''success''
       (s\<lparr>txns := remove1 t (txns s)\<rparr>))"
proof -
  have "distinct (map t_id (txns s))"
    using reachable_store_inv [OF assms(1)] by (simp add: store_inv_def strict_sorted_iff)
  moreover have "t \<in> set (txns s)" "t_id t = tid" using get_txn_Some [OF assms(3)] by auto
  ultimately show ?thesis using assms(2,3)
    by (simp add: delete_transaction_def delete_txn_def filter_t_id_remove1 [symmetric])
qed

theorem delete_removes_only_target_witness:
  "reachable demo_env (run demo_env init_state (demo_requests @ [LogoutReq, RegisterPost ''salt'' bob_form])) \<and>
   txns (snd (delete_transaction 1 (run demo_env init_state (demo_requests @ [LogoutReq, RegisterPost ''salt'' bob_form])))) =
     remove1 (the (get_txn (run demo_env init_state (demo_requests @ [LogoutReq, RegisterPost ''salt'' bob_form])) 1))
       (txns (run demo_env init_state (demo_requests @ [LogoutReq, RegisterPost ''salt'' bob_form])))"
proof -
  have r: "reachable demo_env (run demo_env init_state (demo_requests @ [LogoutReq, RegisterPost ''salt'' bob_form]))"
    by (rule reachable_run [OF reachable.init])
  have h: "sess_user (run demo_env init_state (demo_requests @ [LogoutReq, RegisterPost ''salt'' bob_form])) = Some 2"
    "get_txn (run demo_env init_state (demo_requests @ [LogoutReq, RegisterPost ''salt'' bob_form])) 1 =
       Some (the (get_txn (run demo_env init_state (demo_requests @ [LogoutReq, RegisterPost ''salt'' bob_form])) 1))"
    by (simp_all add: demo_run_bob get_txn_def)
  show ?thesis using delete_removes_only_target [OF r h] r by (simp add: add_flash_def)
qed

subsection \<open>Viewing and the table refinement\<close>

text \<open>C38: view_transactions() for a stored user shows exactly that user's transactions, each once, latest date first.\<close>

theorem view_transactions_own_sorted:
  assumes "sess_user s = Some uid" "get_user s uid \<noteq> None"
  shows "\<exists>ts. view_transactions s = (RenderTransactions ts, s) \<and>
    mset ts = mset (filter (\<lambda>t. user_id t = uid) (txns s)) \<and> sorted (rev (map date ts))"
proof -
  obtain u where u: "get_user s uid = Some u" using assms(2) by blast
  then have "u_id u = uid" by (simp add: get_user_Some)
  with assms(1) u show ?thesis
    by (simp add: view_transactions_def order_by_date_desc_def user_transactions_def rev_map [symmetric]
        sorted_sort_key)
qed

theorem view_transactions_own_sorted_witness:
  "\<exists>ts. view_transactions (run demo_env init_state demo_requests) = (RenderTransactions ts, run demo_env init_state demo_requests) \<and>
    mset ts = mset (filter (\<lambda>t. user_id t = 1) (txns (run demo_env init_state demo_requests))) \<and> sorted (rev (map date ts))"
  by (rule view_transactions_own_sorted) (simp_all add: demo_run get_user_def)

text \<open>C40: Read as a finite map from id to row, the transaction table is a map that the handlers update the way the map operations do: get_transaction is lookup, delete_transaction is deletion of the key (when logged in), a successful edit is an update of an existing key, and a successful add is an insertion at a fresh key.\<close>

theorem txn_table_refines:
  "get_txn s tid = txn_table (txns s) tid \<and>
   txn_table (txns (snd (delete_transaction tid s))) =
     (if sess_user s = None then txn_table (txns s) else (txn_table (txns s))(tid := None)) \<and>
   (txn_table (txns (snd (edit_transaction_post E tid f s))) = txn_table (txns s) \<or>
    (\<exists>t'. t_id t' = tid \<and> tid \<in> dom (txn_table (txns s)) \<and>
       txn_table (txns (snd (edit_transaction_post E tid f s))) = (txn_table (txns s))(tid \<mapsto> t'))) \<and>
   (txn_table (txns (snd (add_transaction_post E f s))) = txn_table (txns s) \<or>
    (\<exists>t. t_id t \<notin> dom (txn_table (txns s)) \<and>
       txn_table (txns (snd (add_transaction_post E f s))) = (txn_table (txns s))(t_id t \<mapsto> t)))"
proof (intro conjI)
  show get: "get_txn s tid = txn_table (txns s) tid" by (simp add: get_txn_def txn_table_find)
  show "txn_table (txns (snd (delete_transaction tid s))) =
      (if sess_user s = None then txn_table (txns s) else (txn_table (txns s))(tid := None))"
    using get by (auto simp: delete_transaction_def delete_txn_def txn_table_filter fun_upd_idem
        split: option.splits)
  have dom: "tid \<in> dom (txn_table (txns s))" if "get_txn s tid = Some t" for t
    using that get by auto
  have "txns (snd (edit_transaction_post E tid f s)) = txns s \<or>
      (\<exists>t ty c n a. get_txn s tid = Some t \<and> txns (snd (edit_transaction_post E tid f s)) =
         txns (update_txn (t\<lparr>type := ty, category := c, t_note := Some n, amount := a\<rparr>) s))"
    by (auto simp: edit_transaction_post_def bind_err_def form_index_def or_abort_def
        split: option.splits sum.splits)
  then show "txn_table (txns (snd (edit_transaction_post E tid f s))) = txn_table (txns s) \<or>
    (\<exists>t'. t_id t' = tid \<and> tid \<in> dom (txn_table (txns s)) \<and>
       txn_table (txns (snd (edit_transaction_post E tid f s))) = (txn_table (txns s))(tid \<mapsto> t'))"
  proof (elim disjE exE conjE)
    fix t ty c n a
    assume t: "get_txn s tid = Some t" and e: "txns (snd (edit_transaction_post E tid f s)) =
      txns (update_txn (t\<lparr>type := ty, category := c, t_note := Some n, amount := a\<rparr>) s)"
    have tid: "t_id t = tid" using get_txn_Some [OF t] by simp
    have "txn_table (txns (snd (edit_transaction_post E tid f s))) =
        (txn_table (txns s))(tid \<mapsto> t\<lparr>type := ty, category := c, t_note := Some n, amount := a\<rparr>)"
      using dom [OF t] tid by (simp add: e update_txn_def txn_table_update)
    with dom [OF t] tid show ?thesis by (intro disjI2 exI [of _ "t\<lparr>type := ty, category := c, t_note := Some n, amount := a\<rparr>"]) simp
  qed simp
  have fresh: "next_rowid (map t_id (txns s)) \<notin> dom (txn_table (txns s))"
    using next_rowid_notin [of "map t_id (txns s)"] by (simp add: dom_txn_table)
  have "txns (snd (add_transaction_post E f s)) = txns s \<or>
      (\<exists>t. t_id t = next_rowid (map t_id (txns s)) \<and> txns (snd (add_transaction_post E f s)) = txns s @ [t])"
    by (auto simp: add_transaction_post_def Let_def split: option.splits sum.splits)
  then show "txn_table (txns (snd (add_transaction_post E f s))) = txn_table (txns s) \<or>
    (\<exists>t. t_id t \<notin> dom (txn_table (txns s)) \<and>
       txn_table (txns (snd (add_transaction_post E f s))) = (txn_table (txns s))(t_id t \<mapsto> t))"
  proof (elim disjE exE conjE)
    fix t
    assume "t_id t = next_rowid (map t_id (txns s))" "txns (snd (add_transaction_post E f s)) = txns s @ [t]"
    with fresh show ?thesis by (intro disjI2 exI [of _ t]) (simp add: txn_table_snoc)
  qed simp
qed

end
