(* ===== verification/Hashing.thy ===== *)
theory Hashing
  imports Store
begin

text \<open>
  werkzeug's password hashing, which \<open>register()\<close> and \<open>login()\<close> call as
  \<open>generate_password_hash(password)\<close> and \<open>check_password_hash(user.password,
  password)\<close> (\<open>werkzeug/security.py\<close>, library code outside \<open>src/\<close>).  The stored
  value is the string \<open>method$salt$hash\<close>; the check splits it with
  \<open>str.split("$", 2)\<close>, recomputes the hash of the candidate password with the stored
  method and salt, and compares.  The key derivation itself (scrypt or PBKDF2) is a
  parameter \<open>h\<close> of type \<open>digest_fn\<close>, assumed collision-free for a fixed method and
  salt (\<open>digest_injective\<close>).  \<open>werkzeug_env\<close> plugs the model into the interface
  \<open>env\<close> of theory \<open>Store\<close>, and the lemmas show that it meets the contract
  \<open>hash_contract\<close> the claims on login rely on.
\<close>

subsection \<open>Definitions\<close>

text \<open>\<open>str.split(sep, maxsplit)\<close>: split at the first \<open>maxsplit\<close> occurrences of
  \<open>sep\<close>, left to right; the rest stays in the last part.\<close>

fun py_split_max :: "char \<Rightarrow> nat \<Rightarrow> string \<Rightarrow> string list" where
  "py_split_max c 0 s = [s]"
| "py_split_max c (Suc n) s =
     (if c \<in> set s then takeWhile (\<lambda>x. x \<noteq> c) s # py_split_max c n (tl (dropWhile (\<lambda>x. x \<noteq> c) s))
      else [s])"

text \<open>\<open>SALT_CHARS = string.ascii_letters + string.digits\<close>.\<close>

definition salt_chars :: string where
  "salt_chars = ''abcdefghijklmnopqrstuvwxyzABCDEFGHIJKLMNOPQRSTUVWXYZ0123456789''"

text \<open>\<open>gen_salt(length)\<close>: one \<open>secrets.choice(SALT_CHARS)\<close> per position; the
  random choices are the argument.\<close>

definition gen_salt :: "nat list \<Rightarrow> string" where
  "gen_salt rs = map (\<lambda>i. salt_chars ! (i mod length salt_chars)) rs"

text \<open>The key derivation: method, salt and password to the hex digest.\<close>

type_synonym digest_fn = "string \<Rightarrow> string \<Rightarrow> string \<Rightarrow> string"

definition digest_injective :: "digest_fn \<Rightarrow> bool" where
  "digest_injective h \<longleftrightarrow> (\<forall>m s p q. h m s p = h m s q \<longrightarrow> p = q)"

text \<open>\<open>generate_password_hash\<close>: \<open>f"{actual_method}${salt}${h}"\<close>.\<close>

definition generate_password_hash :: "digest_fn \<Rightarrow> string \<Rightarrow> string \<Rightarrow> string \<Rightarrow> string" where
  "generate_password_hash h method salt pw = method @ ''$'' @ salt @ ''$'' @ h method salt pw"

text \<open>\<open>check_password_hash\<close>: unpacking the split into three names raises
  \<open>ValueError\<close> unless there are exactly three parts, and the function then returns
  \<open>False\<close>; otherwise \<open>hmac.compare_digest\<close> compares the recomputed digest.\<close>

definition check_password_hash :: "digest_fn \<Rightarrow> string \<Rightarrow> string \<Rightarrow> bool" where
  "check_password_hash h pwhash pw =
     (case py_split_max CHR ''$'' 2 pwhash of
        [method, salt, hashval] \<Rightarrow> h method salt pw = hashval
      | _ \<Rightarrow> False)"

text \<open>werkzeug as the implementation of the hashing interface: the salt argument of a
  registration is the sequence of random choices \<open>gen_salt\<close> draws (one character code
  per choice), \<open>method\<close> the \<open>actual_method\<close> string (e.g. \<open>scrypt:32768:8:1\<close>).\<close>

definition werkzeug_env :: "digest_fn \<Rightarrow> string \<Rightarrow> (string \<Rightarrow> amount option) \<Rightarrow> nat \<Rightarrow> env" where
  "werkzeug_env h method pf cy =
     \<lparr>gen_hash = (\<lambda>r pw. generate_password_hash h method (gen_salt (map of_char r)) pw),
      check_hash = check_password_hash h, parse_float = pf, current_year = cy\<rparr>"

subsection \<open>Lemmas\<close>

lemma takeWhile_sep: "c \<notin> set a \<Longrightarrow> takeWhile (\<lambda>x. x \<noteq> c) (a @ c # b) = a"
  by (induction a) auto

lemma dropWhile_sep: "c \<notin> set a \<Longrightarrow> tl (dropWhile (\<lambda>x. x \<noteq> c) (a @ c # b)) = b"
  by (induction a) auto

lemma py_split_max_sep:
  "c \<notin> set a \<Longrightarrow> py_split_max c (Suc n) (a @ c # b) = a # py_split_max c n b"
  by (simp add: takeWhile_sep dropWhile_sep)

text \<open>Round trip: the string \<open>generate_password_hash\<close> builds splits back into its
  three fields, whatever characters the digest contains.\<close>

lemma split_hash_string:
  "c \<notin> set m \<Longrightarrow> c \<notin> set s \<Longrightarrow> py_split_max c 2 (m @ c # s @ c # d) = [m, s, d]"
  using py_split_max_sep [of c m 1 "s @ c # d"] py_split_max_sep [of c s 0 d]
  by (simp add: numeral_2_eq_2)

lemma dollar_notin_salt_chars: "CHR ''$'' \<notin> set salt_chars"
  by (simp add: salt_chars_def)

lemma gen_salt_chars: "set (gen_salt rs) \<subseteq> set salt_chars"
proof -
  have "0 < length salt_chars" by (simp add: salt_chars_def)
  then show ?thesis by (auto simp: gen_salt_def intro!: nth_mem)
qed

lemma dollar_notin_gen_salt: "CHR ''$'' \<notin> set (gen_salt rs)"
  using gen_salt_chars dollar_notin_salt_chars by blast

lemma check_generate:
  "CHR ''$'' \<notin> set m \<Longrightarrow> CHR ''$'' \<notin> set salt \<Longrightarrow>
     check_password_hash h (generate_password_hash h m salt p) q \<longleftrightarrow> h m salt q = h m salt p"
  using split_hash_string [of "CHR ''$''" m salt "h m salt p"]
  by (simp add: check_password_hash_def generate_password_hash_def)

lemma check_no_dollar:
  "CHR ''$'' \<notin> set pwhash \<Longrightarrow> \<not> check_password_hash h pwhash p"
  by (simp add: check_password_hash_def numeral_2_eq_2)

subsection \<open>The contract\<close>

text \<open>C14: werkzeug's pair meets the hashing contract of the interface: when the key derivation is collision-free for a fixed method and salt and the method string has no dollar sign, check_password_hash(generate_password_hash(p), q) holds exactly when q = p, for every salt gen_salt can draw; so login() with werkzeug accepts a stored user exactly when the submitted password is the one registered (otherwise it re-renders the login page).\<close>

theorem werkzeug_hash_contract:
  assumes "digest_injective h" "CHR ''$'' \<notin> set method"
    "user_by_email s em = Some u" "password u = generate_password_hash h method (gen_salt rs) p"
    "f ''email'' = Some em" "f ''password'' = Some q"
  shows "hash_contract (werkzeug_env h method pf cy) \<and>
    (fst (login_post (werkzeug_env h method pf cy) f s) \<noteq> Render ''login.html'' \<longleftrightarrow> q = p)"
proof
  show "hash_contract (werkzeug_env h method pf cy)"
    using assms(1,2)
    by (auto simp: hash_contract_def werkzeug_env_def check_generate dollar_notin_gen_salt digest_injective_def)
  have "check_password_hash h (password u) q \<longleftrightarrow> q = p"
    using assms(1,2,4) by (auto simp: check_generate dollar_notin_gen_salt digest_injective_def)
  then show "fst (login_post (werkzeug_env h method pf cy) f s) \<noteq> Render ''login.html'' \<longleftrightarrow> q = p"
    using assms(3,5,6)
    by (simp add: login_post_def bind_err_def form_index_def or_abort_def Let_def werkzeug_env_def)
qed

theorem werkzeug_hash_contract_witness:
  "digest_injective (\<lambda>m s p. s @ p) \<and> CHR ''$'' \<notin> set ''scrypt:32768:8:1'' \<and>
   hash_contract (werkzeug_env (\<lambda>m s p. s @ p) ''scrypt:32768:8:1'' Map.empty 2024) \<and>
   fst (login_post (werkzeug_env (\<lambda>m s p. s @ p) ''scrypt:32768:8:1'' Map.empty 2024) reg_form
     (init_state\<lparr>users := [\<lparr>u_id = 1, name = None, email = ''ann@example.com'',
        password = generate_password_hash (\<lambda>m s p. s @ p) ''scrypt:32768:8:1'' (gen_salt [7, 42]) ''pw1''\<rparr>]\<rparr>))
     \<noteq> Render ''login.html''"
proof -
  have h: "digest_injective (\<lambda>m s p. s @ p)" "CHR ''$'' \<notin> set ''scrypt:32768:8:1''"
    "user_by_email (init_state\<lparr>users := [\<lparr>u_id = 1, name = None, email = ''ann@example.com'',
        password = generate_password_hash (\<lambda>m s p. s @ p) ''scrypt:32768:8:1'' (gen_salt [7, 42]) ''pw1''\<rparr>]\<rparr>)
       ''ann@example.com'' =
     Some \<lparr>u_id = 1, name = None, email = ''ann@example.com'',
        password = generate_password_hash (\<lambda>m s p. s @ p) ''scrypt:32768:8:1'' (gen_salt [7, 42]) ''pw1''\<rparr>"
    "password \<lparr>u_id = 1, name = None, email = ''ann@example.com'',
        password = generate_password_hash (\<lambda>m s p. s @ p) ''scrypt:32768:8:1'' (gen_salt [7, 42]) ''pw1''\<rparr> =
     generate_password_hash (\<lambda>m s p. s @ p) ''scrypt:32768:8:1'' (gen_salt [7, 42]) ''pw1''"
    "reg_form ''email'' = Some ''ann@example.com''" "reg_form ''password'' = Some ''pw1''"
    by (simp_all add: digest_injective_def user_by_email_def init_state_def reg_form_def)
  show ?thesis using werkzeug_hash_contract [OF h] h(1,2) by blast
qed

end
