(* ===== verification/Spec2Isabelle.thy ===== *)
theory Spec2Isabelle
  imports Auth Crud Hashing
begin

text \<open>
  \<^bold>\<open>FINTRACK in Isabelle/HOL.\<close>
  FINTRACK (\<open>src/app.py\<close>, \<open>src/models.py\<close>) is a Flask application over two
  SQLAlchemy tables, \<open>users\<close> and \<open>transactions\<close>.  Its request handlers read the
  session cookie, validate form fields, write single rows and render templates; the one
  handler with real logic is \<open>dashboard()\<close>, which aggregates the current user's
  transactions into today's totals, a payment-method summary, per-month totals of the
  current year, a running balance in date order and the five most recent transactions.

  \<^bold>\<open>Library layout.\<close>
  \<^item> \<open>Prelude\<close>: the exceptions a handler can raise (\<open>py_error\<close>), the Python
    builtins the code calls (\<open>str.lower\<close> and \<open>str.strip\<close> on ASCII, \<open>sum\<close> as a
    left fold from 0, the slice \<open>xs[-n:]\<close>, \<open>dict.get\<close>) and the list lemmas the
    components share (collections \<open>py_defs\<close> and \<open>py_simps\<close>).
  \<^item> \<open>Models\<close>: \<open>src/models.py\<close>.  \<open>User\<close> and \<open>Transaction\<close> are records
    (\<open>user\<close>, \<open>transaction\<close>; the column \<open>note\<close> is the field \<open>t_note\<close>,
    nullable columns are options); the \<open>db.DateTime\<close> values are the datatype
    \<open>datetime\<close>, an instance of \<open>linorder\<close> ordered field by field as Python
    orders \<open>datetime\<close> objects, with \<open>dt_date\<close> for \<open>.date()\<close> and the
    calendar rules of Python's \<open>datetime\<close> (\<open>valid_ymd\<close>, \<open>valid_datetime\<close>).
    \<open>is_income\<close> and \<open>is_expense\<close> are the tests \<open>t.type.lower() == ...\<close>.
  \<^item> \<open>DateParse\<close>: \<open>datetime.strptime(s, '%Y-%m-%d')\<close>, called by
    \<open>add_transaction\<close> and \<open>dashboard\<close>.  It is library code, modelled from the
    regular expression \<open>_strptime\<close> builds for the format: each directive is a
    matcher returning its matches in the order the backtracking engine tries them
    (\<open>re_char\<close>, \<open>re_seq\<close>, \<open>re_alt\<close>, \<open>re_map\<close>), \<open>strptime_ymd\<close> takes
    the first match, raises when text is left over or the day is not in the calendar.
    Lemmas: the round trip with \<open>iso_date\<close> (\<open>date.isoformat\<close>), validity of every
    result, and the inputs outside \<open>YYYY-MM-DD\<close> it accepts or rejects.
  \<^item> \<open>Aggregator\<close>: \<open>dashboard()\<close>, lines 155--195 of \<open>src/app.py\<close>, one
    definition per computation in the code's order: \<open>sum_matching\<close> (the generator
    sums of lines 156--163, consumed from the left and raising \<open>ValueError\<close> from the
    filter guard, which is evaluated only for transactions of the right type),
    \<open>total_method\<close> (lines 166--169), \<open>monthly_step\<close>/\<open>monthly_summary\<close> (the
    dict-updating loop of lines 172--181), \<open>rb_step\<close>/\<open>running_balance\<close> (the
    stable sort by date and the accumulating loop of lines 184--192),
    \<open>recent_transactions\<close> (line 195 and the list passed at line 211), composed by
    \<open>dashboard_view\<close> into the record of values the template receives.  Next to them,
    a reference specification (\<open>parsed_filter\<close>, \<open>period_total\<close>,
    \<open>month_map\<close>, \<open>signed_amount\<close>, \<open>balances_from\<close>) states what the spec's
    section 4.1 promises without the loops, and the lemmas prove that the loops compute
    it (\<open>sum_matching_ok\<close>, \<open>monthly_summary_eq\<close>, \<open>foldl_rb_step\<close>), that the
    sort is the stable sort, that the final balance does not depend on the input order,
    which inputs make the dashboard raise, and the scenarios of the spec's section 8.
  \<^item> \<open>Store\<close>: the request handlers and the state they change.  \<open>app_state\<close>
    holds the two tables (lists of rows in rowid order, \<open>next_rowid\<close> for SQLite's
    rowid), the session cookie (\<open>sess_user\<close>, \<open>sess_permanent\<close>) and the flashed
    messages.  The library calls the handlers make through an interface are the fields of
    \<open>env\<close>: \<open>generate_password_hash\<close>/\<open>check_password_hash\<close> (with their
    contract \<open>hash_contract\<close>), \<open>float()\<close> and the current year.  One definition per
    handler with its guards and early returns, in the order of \<open>src/app.py\<close>:
    \<open>home\<close>, \<open>register_post\<close>, \<open>login_post\<close>, \<open>add_transaction_post\<close>,
    \<open>dashboard\<close> (which calls \<open>dashboard_view\<close>), \<open>logout\<close>,
    \<open>view_transactions\<close>, \<open>edit_transaction_post\<close>/\<open>edit_transaction_get\<close>,
    \<open>delete_transaction\<close>.  An exception that escapes a handler (\<open>request.form[k]\<close>
    on a missing key, \<open>float()\<close>, \<open>get_or_404\<close>, \<open>None.id\<close>) is the response
    \<open>Abort\<close> with the state unchanged (\<open>or_abort\<close>).  \<open>handle\<close> dispatches a
    \<open>request\<close>; \<open>Expire\<close> is the session running out (line 17).  \<open>reachable\<close> is
    the inductive set of states reachable from the empty database, \<open>run\<close> a sequence
    of requests.  Lemmas: the invariant \<open>store_inv\<close> (unique ids and e-mails, foreign
    keys, the session user exists, valid dates) is preserved by every handler and holds
    in every reachable state (rule induction, \<open>reachable_store_inv\<close>); every stored
    password is a hash (\<open>reachable_passwords_hashed\<close>); the state of the spec's
    scenario computed by \<open>simp\<close> (\<open>demo_run\<close>).
  \<^item> \<open>Auth\<close>: every branch of \<open>register()\<close> and \<open>login()\<close>, that a login needs
    the password the stored hash came from, that after \<open>logout()\<close> nothing changes until
    the next login, and that the users table is append-only.
  \<^item> \<open>Crud\<close>: \<open>add_transaction()\<close> (what it stores, and that it stores nothing
    without a session, a number and a date), \<open>edit_transaction()\<close> (no ownership test,
    the uncaught \<open>float()\<close>, the unnormalised type), \<open>delete_transaction()\<close>,
    \<open>view_transactions()\<close>, and the refinement of the transaction table by a finite
    map from id to row (\<open>txn_table\<close>: lookup, delete, update, insert at a fresh key).
  \<^item> \<open>Hashing\<close>: werkzeug's \<open>generate_password_hash\<close> and
    \<open>check_password_hash\<close> (library code, modelled from werkzeug's source): the stored
    string \<open>method$salt$hash\<close>, \<open>gen_salt\<close> over \<open>SALT_CHARS\<close>, Python's
    \<open>str.split("$", 2)\<close> (\<open>py_split_max\<close>) and the \<open>ValueError\<close> branch of the
    unpacking.  The key derivation (scrypt or PBKDF2) is a parameter, assumed
    collision-free for a fixed method and salt.  \<open>werkzeug_env\<close> is the implementation
    of the interface \<open>env\<close>, and the contract \<open>hash_contract\<close> that the login claims
    assume is proved for it (round trip of the split, no \<open>$\<close> in a salt).
  \<^item> This theory: the properties that span the components: the integrity of every
    reachable state, that no request on it ends in \<open>AttributeError\<close>, and the
    liveness of the login path (a stored user with the right password reaches a rendered
    dashboard in two requests, which needs that \<open>dashboard_view\<close> cannot raise
    without a filter, \<open>dashboard_view_None\<close>), and the composition of the
    writing handlers with the dashboard: an \<open>add_transaction\<close> or a
    \<open>delete_transaction\<close> followed by the dashboard changes the day's income or
    expense by exactly the row written (through the reference totals
    \<open>period_total\<close> of theory \<open>Aggregator\<close>, \<open>dashboard_totals\<close>).

  \<^bold>\<open>What the model assumes.\<close>
  Amounts are \<open>real\<close>: the \<open>db.Float\<close> column and Python's \<open>float\<close> arithmetic
  are modelled as exact arithmetic, so rounding of IEEE doubles is not covered (a fact
  such as "the final balance is independent of the input order" holds for the reals,
  not bit for bit for doubles).  Strings are ASCII \<open>char\<close> lists; \<open>str.lower\<close>
  and \<open>\d\<close> are modelled on ASCII only (no non-ASCII code point lowers to a letter of
  \<open>income\<close> or \<open>expense\<close>, so the type tests are exact).  \<open>user.transactions\<close>
  is taken as a list in the order the query returns it; every aggregate but the running
  balance is independent of that order for the reals.  The current year
  (\<open>datetime.now().year\<close>) is a parameter.  No definition uses fuel: every loop of
  the program is a fold over a finite list (the generator sums, the monthly and
  running-balance loops) or a structural recursion (the regular-expression matchers of
  \<open>strptime\<close>, \<open>run\<close> over a request sequence), so every definition is total by
  construction and the development states no separate termination theorem.

  \<^bold>\<open>Not modelled.\<close>
  HTML rendering (the templates are not in \<open>src/\<close>), Flask routing and URL building,
  the signing of the session cookie, the key derivation inside werkzeug's hashing (scrypt or
  PBKDF2, a parameter assumed collision-free), the SQLite engine beyond the queries the code issues, and
  concurrent requests from several browsers: the model has one session, and the spec
  (section 5) leaves concurrent edits out of scope.  The framework configuration of lines
  1--21 has no behaviour but the session lifetime, which is the request \<open>Expire\<close>.
  The GET branches of \<open>register\<close>, \<open>login\<close> and \<open>add_transaction\<close> only render
  a template and are clauses of \<open>handle\<close>.
\<close>


subsection \<open>Lemmas\<close>

lemma sum_matching_None: "\<exists>r. sum_matching P None acc ts = Inr r"
  by (induction ts arbitrary: acc) (auto simp: date_filter_ok_def)

lemma dashboard_view_None:
  "\<exists>p. dashboard_view cy None ts = Inr p \<and> v_running_balance p = running_balance ts"
  using sum_matching_None [of is_income 0 ts] sum_matching_None [of is_expense 0 ts]
  by (auto simp: dashboard_view_Inr today_income_def today_expense_def)

lemma strptime_ymd_Nil: "strptime_ymd [] = Inl ValueError"
  by (simp add: strptime_eval)

lemma parsed_filter_strptime: "strptime_ymd ds = Inr d \<Longrightarrow> parsed_filter (Some ds) = Inr (Some (dt_date d))"
  by (cases "ds = []") (simp_all add: parsed_filter_def strptime_ymd_Nil)

lemma period_total_Nil [simp]: "period_total P pd [] = 0"
  by (simp add: period_total_def)

lemma period_total_Cons [simp]:
  "period_total P pd (t # ts) = (if P t \<and> in_period pd t then amount t else 0) + period_total P pd ts"
  by (simp add: period_total_def)

lemma period_total_snoc:
  "period_total P pd (ts @ [t]) = period_total P pd ts + (if P t \<and> in_period pd t then amount t else 0)"
  by (induction ts) simp_all

lemma period_total_filter_remove1:
  "t \<in> set ts \<Longrightarrow> period_total P pd (filter Q (remove1 t ts)) =
     period_total P pd (filter Q ts) - (if Q t \<and> P t \<and> in_period pd t then amount t else 0)"
  by (induction ts) auto

lemma dashboard_totals:
  assumes "sess_user s = Some uid" "get_user s uid \<noteq> None" "parsed_filter fd = Inr pd"
  shows "\<exists>p. fst (dashboard E fd s) = RenderDashboard p \<and>
    v_today_income p = period_total is_income pd (user_transactions s uid) \<and>
    v_today_expense p = period_total is_expense pd (user_transactions s uid)"
proof -
  obtain u where u: "get_user s uid = Some u" using assms(2) by blast
  then have "u_id u = uid" by (simp add: get_user_Some)
  obtain v where v: "dashboard_view (current_year E) fd (user_transactions s uid) = Inr v"
    using assms(3) by (simp add: dashboard_view_Inr today_income_def today_expense_def sum_matching_ok)
  have "v_today_income v = period_total is_income pd (user_transactions s uid)"
      "v_today_expense v = period_total is_expense pd (user_transactions s uid)"
    using dashboard_view_fields [OF v] assms(3) by (simp_all add: today_income_def today_expense_def sum_matching_ok)
  with assms(1) u \<open>u_id u = uid\<close> v show ?thesis
    by (intro exI [of _ v]) (simp add: dashboard_def)
qed

subsection \<open>Properties of the whole application\<close>

text \<open>C23: In every state reachable from the empty database by any sequence of requests, user ids, e-mails and transaction ids are unique, every transaction's owner is a stored user and its date a calendar date, and the session's user is a stored user.\<close>

theorem reachable_integrity:
  assumes "reachable E s"
  shows "distinct (map u_id (users s)) \<and> distinct (map email (users s)) \<and>
    distinct (map t_id (txns s)) \<and>
    (\<forall>t\<in>set (txns s). get_user s (user_id t) \<noteq> None \<and> valid_datetime (date t)) \<and>
    (\<forall>uid. sess_user s = Some uid \<longrightarrow> get_user s uid \<noteq> None)"
  using reachable_store_inv [OF assms]
  by (auto simp: store_inv_def strict_sorted_iff get_user_None_iff)

theorem reachable_integrity_witness:
  "reachable demo_env (run demo_env init_state demo_requests) \<and>
   get_user (run demo_env init_state demo_requests) 1 \<noteq> None"
  using reachable_integrity [OF demo_reachable] demo_reachable by (simp add: demo_run)

text \<open>C28: In a reachable state no request ends in an AttributeError: the user looked up by home() and dashboard() always exists.\<close>

theorem reachable_no_attribute_error:
  assumes "reachable E s"
  shows "fst (handle E s r) \<noteq> Abort AttributeError"
proof -
  have inv: "store_inv s" by (rule reachable_store_inv [OF assms])
  then have u: "get_user s uid \<noteq> None" if "sess_user s = Some uid" for uid
    using that by (auto simp: store_inv_def get_user_None_iff)
  show ?thesis
  proof (cases r)
    case HomeReq
    then show ?thesis using u by (auto simp: home_def split: option.splits)
  next
    case (DashboardReq fd)
    then show ?thesis using u
      by (auto simp: dashboard_def dest: dashboard_view_Inl split: option.splits sum.splits)
  next
    case (RegisterPost salt f)
    then show ?thesis
      by (auto simp: register_post_def or_abort_def bind_err_def form_index_def Let_def split: option.splits sum.splits)
  next
    case (LoginPost f)
    then show ?thesis
      by (auto simp: login_post_def or_abort_def bind_err_def form_index_def Let_def
          split: option.splits sum.splits)
  next
    case (EditPost tid f)
    then show ?thesis
      by (auto simp: edit_transaction_post_def or_abort_def bind_err_def form_index_def
          split: option.splits sum.splits)
  qed (auto simp: add_transaction_post_def logout_def view_transactions_def edit_transaction_get_def
      delete_transaction_def Let_def split: option.splits sum.splits)
qed

theorem reachable_no_attribute_error_witness:
  "reachable demo_env (run demo_env init_state demo_requests) \<and>
   fst (handle demo_env (run demo_env init_state demo_requests) HomeReq) \<noteq> Abort AttributeError"
  using reachable_no_attribute_error [OF demo_reachable] demo_reachable by blast

text \<open>C17: Liveness of the login path: from any state, a stored user who submits their e-mail and the password their stored hash was generated from reaches their dashboard in two requests (login, then the dashboard without a filter), which renders the running balance of exactly their transactions; no request of the path can raise.\<close>

theorem registered_user_reaches_dashboard:
  assumes "hash_contract E" "f ''email'' = Some em" "f ''password'' = Some pw"
    "user_by_email s em = Some u" "password u = gen_hash E salt pw"
  shows "\<exists>p. fst (handle E (snd (handle E s (LoginPost f))) (DashboardReq None)) = RenderDashboard p \<and>
    v_running_balance p = running_balance (user_transactions s (u_id u))"
proof -
  have s': "snd (login_post E f s) =
      add_flash ''Login successful!'' ''success'' (s\<lparr>sess_permanent := True, sess_user := Some (u_id u)\<rparr>)"
    using assms by (simp add: login_post_def bind_err_def form_index_def or_abort_def Let_def hash_contract_def)
  have "u \<in> set (users s)" using user_by_email_Some [OF assms(4)] by simp
  then obtain u' where u': "get_user s (u_id u) = Some u'"
    by (cases "get_user s (u_id u)") (auto simp: get_user_None_iff)
  then have id: "u_id u' = u_id u" by (simp add: get_user_Some)
  obtain p where p: "dashboard_view (current_year E) None (user_transactions s (u_id u)) = Inr p"
      "v_running_balance p = running_balance (user_transactions s (u_id u))"
    using dashboard_view_None by blast
  have "get_user (snd (login_post E f s)) (u_id u) = Some u'" "user_transactions (snd (login_post E f s)) = user_transactions s"
    using u' by (simp_all add: s' get_user_def user_transactions_def add_flash_def fun_eq_iff)
  with p id show ?thesis by (simp add: dashboard_def s' add_flash_def)
qed

theorem registered_user_reaches_dashboard_witness:
  "hash_contract demo_env \<and>
   (\<exists>p. fst (handle demo_env (snd (handle demo_env (run demo_env init_state (demo_requests @ [LogoutReq])) (LoginPost reg_form)))
        (DashboardReq None)) = RenderDashboard p \<and>
      v_running_balance p = running_balance (user_transactions (run demo_env init_state (demo_requests @ [LogoutReq]))
        (u_id (hd (users (run demo_env init_state demo_requests))))))"
proof -
  have h: "hash_contract demo_env" "reg_form ''email'' = Some ''ann@example.com''" "reg_form ''password'' = Some ''pw1''"
    "user_by_email (run demo_env init_state (demo_requests @ [LogoutReq])) ''ann@example.com'' =
       Some (hd (users (run demo_env init_state demo_requests)))"
    "password (hd (users (run demo_env init_state demo_requests))) = gen_hash demo_env ''salt'' ''pw1''"
    unfolding demo_run_logout demo_run by (simp_all add: demo_eval hash_contract_def) auto
  show ?thesis using registered_user_reaches_dashboard [OF h] h(1) by blast
qed

text \<open>C37: Adding a transaction changes the dashboard exactly by the new row: for any filter strptime accepts, the day's income (resp. expense) grows by the parsed amount when the normalised type is income (resp. expense) and the date is in the period. The amount is added as given, negative or not.\<close>

theorem add_then_dashboard_totals:
  assumes "sess_user s = Some uid" "get_user s uid \<noteq> None"
    "parse_float E (py_strip (py_dict_get f ''amount'' ''0'')) = Some a"
    "strptime_ymd (py_strip (py_dict_get f ''date'' '''')) = Inr d"
    "parsed_filter fd = Inr pd"
  shows "\<exists>p p'. fst (dashboard E fd s) = RenderDashboard p \<and>
    fst (dashboard E fd (snd (add_transaction_post E f s))) = RenderDashboard p' \<and>
    v_today_income p' = v_today_income p +
      (if py_lower (py_strip (py_dict_get f ''type'' '''')) = ''income'' \<and>
          (case pd of None \<Rightarrow> True | Some x \<Rightarrow> x = dt_date d) then a else 0) \<and>
    v_today_expense p' = v_today_expense p +
      (if py_lower (py_strip (py_dict_get f ''type'' '''')) = ''expense'' \<and>
          (case pd of None \<Rightarrow> True | Some x \<Rightarrow> x = dt_date d) then a else 0)"
proof -
  define t where "t = \<lparr>t_id = next_rowid (map t_id (txns s)),
      type = py_lower (py_strip (py_dict_get f ''type'' '''')),
      category = py_strip (py_dict_get f ''category'' ''''), amount = a, date = d,
      t_note = Some (py_strip (py_dict_get f ''notes'' '''')), user_id = uid,
      payment_method = Some (py_strip (py_dict_get f ''payment_method'' ''''))\<rparr>"
  define s' where "s' = snd (add_transaction_post E f s)"
  have s': "s' = add_flash ''Transaction added successfully!'' ''success'' (s\<lparr>txns := txns s @ [t]\<rparr>)"
    using add_transaction_post_ok [OF assms(1-4)] by (simp add: s'_def t_def)
  have st: "sess_user s' = Some uid" "get_user s' uid \<noteq> None"
      "user_transactions s' uid = user_transactions s uid @ [t]"
    using assms(1,2) by (simp_all add: s' get_user_def user_transactions_def add_flash_def t_def)
  have cls: "is_income t \<longleftrightarrow> py_lower (py_strip (py_dict_get f ''type'' '''')) = ''income''"
      "is_expense t \<longleftrightarrow> py_lower (py_strip (py_dict_get f ''type'' '''')) = ''expense''"
      "in_period pd t \<longleftrightarrow> (case pd of None \<Rightarrow> True | Some x \<Rightarrow> x = dt_date d)"
    by (auto simp: t_def is_income_def is_expense_def py_lower_idem in_period_def split: option.splits)
  obtain p where p: "fst (dashboard E fd s) = RenderDashboard p"
      "v_today_income p = period_total is_income pd (user_transactions s uid)"
      "v_today_expense p = period_total is_expense pd (user_transactions s uid)"
    using dashboard_totals [OF assms(1,2,5)] by blast
  obtain p' where p': "fst (dashboard E fd s') = RenderDashboard p'"
      "v_today_income p' = period_total is_income pd (user_transactions s' uid)"
      "v_today_expense p' = period_total is_expense pd (user_transactions s' uid)"
    using dashboard_totals [OF st(1,2) assms(5)] by blast
  show ?thesis
    using p p' st(3) cls unfolding s'_def [symmetric] by (auto simp: period_total_snoc t_def)
qed

theorem add_then_dashboard_totals_witness:
  "parsed_filter (Some ''2024-01-07'') = Inr (Some (Date 2024 1 7)) \<and>
   (\<exists>p p'. fst (dashboard demo_env (Some ''2024-01-07'') (run demo_env init_state demo_requests)) = RenderDashboard p \<and>
     fst (dashboard demo_env (Some ''2024-01-07'')
       (snd (add_transaction_post demo_env (add_form ''income'' ''-5'' ''2024-01-07'') (run demo_env init_state demo_requests)))) = RenderDashboard p' \<and>
     v_today_income p' = v_today_income p + (-5))"
proof -
  have h: "sess_user (run demo_env init_state demo_requests) = Some 1" "get_user (run demo_env init_state demo_requests) 1 \<noteq> None"
    "parse_float demo_env (py_strip (py_dict_get (add_form ''income'' ''-5'' ''2024-01-07'') ''amount'' ''0'')) = Some (-5)"
    "strptime_ymd (py_strip (py_dict_get (add_form ''income'' ''-5'' ''2024-01-07'') ''date'' '''')) =
       Inr (DateTime 2024 1 7 0 0 0 0)"
    "parsed_filter (Some ''2024-01-07'') = Inr (Some (Date 2024 1 7))"
    unfolding demo_run by (simp_all add: demo_eval parsed_filter_def dt_date_def)
  have c: "py_lower (py_strip (py_dict_get (add_form ''income'' ''-5'' ''2024-01-07'') ''type'' '''')) = ''income''"
    by (simp add: demo_eval)
  show ?thesis
    using add_then_dashboard_totals [OF h] h(5) c by (fastforce simp: dt_date_def)
qed

text \<open>C11: Deleting a transaction changes the dashboard of the session's user exactly by that row: for any filter strptime accepts, the day's income (resp. expense) drops by its amount when it is the user's own income (resp. expense) row of the period, and does not change otherwise (deleting another user's row leaves the dashboard as it was).\<close>

theorem delete_then_dashboard_totals:
  assumes "reachable E s" "sess_user s = Some uid" "get_user s uid \<noteq> None" "get_txn s tid = Some t"
    "parsed_filter fd = Inr pd"
  shows "\<exists>p p'. fst (dashboard E fd s) = RenderDashboard p \<and>
    fst (dashboard E fd (snd (delete_transaction tid s))) = RenderDashboard p' \<and>
    v_today_income p' = v_today_income p -
      (if user_id t = uid \<and> is_income t \<and> in_period pd t then amount t else 0) \<and>
    v_today_expense p' = v_today_expense p -
      (if user_id t = uid \<and> is_expense t \<and> in_period pd t then amount t else 0)"
proof -
  have mem: "t \<in> set (txns s)" "t_id t = tid" using get_txn_Some [OF assms(4)] by auto
  have "distinct (map t_id (txns s))"
    using reachable_store_inv [OF assms(1)] by (simp add: store_inv_def strict_sorted_iff)
  then have del: "txns (snd (delete_transaction tid s)) = remove1 t (txns s)"
    using mem assms(2,4) by (simp add: delete_transaction_def delete_txn_def add_flash_def filter_t_id_remove1 mem(2) [symmetric])
  have st: "sess_user (snd (delete_transaction tid s)) = Some uid"
      "get_user (snd (delete_transaction tid s)) uid \<noteq> None"
    using assms(2,3,4) by (simp_all add: delete_transaction_def delete_txn_def add_flash_def get_user_def)
  obtain p where p: "fst (dashboard E fd s) = RenderDashboard p"
      "v_today_income p = period_total is_income pd (user_transactions s uid)"
      "v_today_expense p = period_total is_expense pd (user_transactions s uid)"
    using dashboard_totals [OF assms(2,3,5)] by blast
  obtain p' where p': "fst (dashboard E fd (snd (delete_transaction tid s))) = RenderDashboard p'"
      "v_today_income p' = period_total is_income pd (user_transactions (snd (delete_transaction tid s)) uid)"
      "v_today_expense p' = period_total is_expense pd (user_transactions (snd (delete_transaction tid s)) uid)"
    using dashboard_totals [OF st assms(5)] by blast
  show ?thesis
    using p p' mem(1) by (auto simp: user_transactions_def del period_total_filter_remove1)
qed

theorem delete_then_dashboard_totals_witness:
  "reachable demo_env (run demo_env init_state demo_requests) \<and>
   (\<exists>p p'. fst (dashboard demo_env None (run demo_env init_state demo_requests)) = RenderDashboard p \<and>
     fst (dashboard demo_env None (snd (delete_transaction 1 (run demo_env init_state demo_requests)))) = RenderDashboard p' \<and>
     v_today_income p' = v_today_income p - 100)"
proof -
  have h: "sess_user (run demo_env init_state demo_requests) = Some 1" "get_user (run demo_env init_state demo_requests) 1 \<noteq> None"
    "get_txn (run demo_env init_state demo_requests) 1 = Some (hd (txns (run demo_env init_state demo_requests)))" "parsed_filter None = Inr None"
    unfolding demo_run by (simp_all add: get_user_def get_txn_def parsed_filter_def)
  have t: "user_id (hd (txns (run demo_env init_state demo_requests))) = 1" "is_income (hd (txns (run demo_env init_state demo_requests)))" "amount (hd (txns (run demo_env init_state demo_requests))) = 100"
    unfolding demo_run by (simp_all add: demo_eval is_income_def)
  show ?thesis
    using delete_then_dashboard_totals [OF demo_reachable h] demo_reachable t by (fastforce simp: in_period_def)
qed

end
